theory Spec2Isabelle
  imports Complex_Main
begin

section \<open>Python values shared by the agents\<close>

text \<open>
  The agents are Python. Unbounded \<open>int\<close> is \<^typ>\<open>int\<close>. A \<open>float\<close> argument is the
  \<^typ>\<open>real\<close> that a finite double denotes; comparing floats is exact, and what the
  arithmetic on them returns is written out below, with its range and its rounding. A
  raised exception is the left summand of a sum type, the returned value the right one;
  \<open>Raised msg\<close> is an exception of an external collaborator whose \<open>str\<close> is \<open>msg\<close>.
\<close>

datatype py_error =
    KeyError | ValueError | OverflowError | UnboundLocalError | RecursionError
  | Raised string

text \<open>A value decoded by \<open>json.loads\<close>; an object is the decoded \<open>dict\<close> in key order.\<close>

datatype json =
    JNull
  | JBool bool
  | JInt int
  | JFloat real
  | JStr string
  | JArr "json list"
  | JObj "(string \<times> json) list"

text \<open>Python truthiness, as used by \<open>"retry" if value else "fail"\<close>.\<close>

fun truthy :: "json \<Rightarrow> bool" where
  "truthy JNull = False"
| "truthy (JBool b) = b"
| "truthy (JInt i) = (i \<noteq> 0)"
| "truthy (JFloat x) = (x \<noteq> 0)"
| "truthy (JStr s) = (s \<noteq> [])"
| "truthy (JArr xs) = (xs \<noteq> [])"
| "truthy (JObj kvs) = (kvs \<noteq> [])"

text \<open>\<open>str(n)\<close> for an \<open>int\<close>: the decimal digits, with a minus sign when negative.\<close>

definition digit_char :: "nat \<Rightarrow> char" where
  "digit_char d = ''0123456789'' ! d"

fun str_nat :: "nat \<Rightarrow> string" where
  "str_nat n = (if n < 10 then [digit_char n] else str_nat (n div 10) @ [digit_char (n mod 10)])"

definition str_int :: "int \<Rightarrow> string" where
  "str_int i = (if i < 0 then CHR ''-'' # str_nat (nat (- i)) else str_nat (nat i))"

subsection \<open>Numbers\<close>

text \<open>
  A number read from a playbook is an \<open>int\<close> or a \<open>float\<close>. A float that the code
  computes is finite or an infinity (no operation below yields a NaN from finite
  arguments; the sign of a zero is not kept). A delay handed to \<open>asyncio.sleep\<close> is an
  \<open>int\<close>, a float, or the float product \<open>x * n\<close> of a float and an \<open>int\<close>, which is kept
  as the product it is: Python rounds \<open>n\<close> to a double and then the product to a double
  (\<open>0.1 * 3\<close> is \<open>0.30000000000000004\<close>), and no value is claimed for it here.
\<close>

datatype py_number = Py_int int | Py_float real

datatype py_float = Finite real | Plus_infinity | Minus_infinity

datatype py_delay = Int_delay int | Float_delay py_float | Float_times_int real int

text \<open>
  Converting an \<open>int\<close> to a float raises \<open>OverflowError\<close> from this magnitude on (the
  ints that round to \<open>2 ** 1024\<close>); doubles below \<open>2 ** -1022\<close> are the multiples of
  \<open>2 ** -1074\<close>, and a product is rounded to the nearest of them, ties to even.
\<close>

definition float_overflow_bound :: int where
  "float_overflow_bound = 2 ^ 1024 - 2 ^ 970"

definition round_half_even :: "real \<Rightarrow> int" where
  "round_half_even q =
     (let f = \<lfloor>q\<rfloor>; r = q - of_int f
      in if r < 1/2 then f else if 1/2 < r then f + 1 else if even f then f else f + 1)"

text \<open>
  The float product \<open>x * y\<close> of a float \<open>x\<close> and a float \<open>y\<close> that is a power of two or
  zero: the exact product where it is a double, an infinity beyond the largest double,
  and the nearest multiple of \<open>2 ** -1074\<close> below the smallest normal double.
\<close>

definition float_scale :: "real \<Rightarrow> real \<Rightarrow> py_float" where
  "float_scale x y =
     (let p = x * y
      in if 2 ^ 1024 \<le> p then Plus_infinity
         else if p \<le> - (2 ^ 1024) then Minus_infinity
         else if p = 0 \<or> 1 / 2 ^ 1022 \<le> \<bar>p\<bar> then Finite p
         else Finite (of_int (round_half_even (p * 2 ^ 1074)) / 2 ^ 1074))"

text \<open>\<open>min(delay, 10)\<close> for a float \<open>delay\<close>: the \<open>int\<close> \<open>10\<close> when \<open>10 < delay\<close>.\<close>

fun min_ten :: "py_float \<Rightarrow> py_delay" where
  "min_ten Plus_infinity = Int_delay 10"
| "min_ten Minus_infinity = Float_delay Minus_infinity"
| "min_ten (Finite v) = (if 10 < v then Int_delay 10 else Float_delay (Finite v))"

text \<open>The number of seconds a delay is, where it is a finite number given above.\<close>

fun delay_seconds :: "py_delay \<Rightarrow> real option" where
  "delay_seconds (Int_delay n) = Some (of_int n)"
| "delay_seconds (Float_delay (Finite v)) = Some v"
| "delay_seconds (Float_delay Plus_infinity) = None"
| "delay_seconds (Float_delay Minus_infinity) = None"
| "delay_seconds (Float_times_int x n) = None"

section \<open>ChaosAgent (chaos\_agent\_universal.py)\<close>

text \<open>
  \<open>ChaosAgentConfig\<close> and the parts of a \<open>ChaosAgent\<close> instance that \<open>call\<close> reads.
  A \<open>dict\<close> whose key order matters (\<open>list(d.keys())\<close> feeds the weighted draw) is an
  association list read with \<^const>\<open>map_of\<close>. The attribute \<open>_call_counter\<close> does not
  exist on a fresh instance (\<open>getattr(self, '_call_counter', 0)\<close>): it is an option.
\<close>

record chaos_agent_config =
  default_failure_rate :: real
  default_seed :: int
  error_weights :: "(string \<times> int) list"
  mock_success_enabled :: bool

record error_strategy =
  message :: string
  http_method :: string
  path :: string

record chaos_agent =
  config :: chaos_agent_config
  chaos_strategies :: "(string \<times> (string \<times> error_strategy) list) list"
  call_counter :: "int option"

text \<open>
  The standard library is not part of the repository; what the agent uses of it is a
  parameter:
  \<^item> \<open>variate s\<close> is \<open>random.Random(s).random()\<close>, the first variate of a fresh generator
    seeded with \<open>s\<close>;
  \<^item> \<open>choices s population weights\<close> is
    \<open>random.Random(s).choices(population, weights=weights, k=1)[0]\<close>, or the exception it
    raises;
  \<^item> \<open>to_int s\<close> is \<open>int(s)\<close>, \<open>None\<close> where it raises \<open>ValueError\<close>.
\<close>

record py_lib =
  variate :: "int \<Rightarrow> real"
  choices :: "int \<Rightarrow> string list \<Rightarrow> int list \<Rightarrow> py_error + string"
  to_int :: "string \<Rightarrow> int option"

text \<open>\<open>ChaosAgent._should_inject_chaos\<close>: the decision and the instance afterwards.\<close>

definition should_inject_chaos ::
  "py_lib \<Rightarrow> chaos_agent \<Rightarrow> real \<Rightarrow> int \<Rightarrow> bool \<times> chaos_agent" where
  "should_inject_chaos lib self failure_rate seed =
     (if failure_rate \<le> 0 then (False, self)
      else if failure_rate \<ge> 1 then (True, self)
      else
        let counter = (case call_counter self of None \<Rightarrow> 0 | Some c \<Rightarrow> c) + 1;
            self' = self\<lparr>call_counter := Some counter\<rparr>;
            varied_seed = seed + counter
        in (variate lib varied_seed < failure_rate, self'))"

text \<open>\<open>ChaosAgent.select_error_code\<close>.\<close>

definition select_error_code ::
  "py_lib \<Rightarrow> chaos_agent \<Rightarrow> string \<Rightarrow> int \<Rightarrow> py_error + string" where
  "select_error_code lib self tool_name seed =
     (case map_of (chaos_strategies self) tool_name of
        None \<Rightarrow> Inr ''400''
      | Some strategies \<Rightarrow>
          let available_errors = map fst strategies in
          if available_errors = [] then Inr ''400''
          else
            let weights =
                  map (\<lambda>code. case map_of (error_weights (config self)) code of
                                 None \<Rightarrow> 10 | Some w \<Rightarrow> w)
                      available_errors
            in choices lib seed available_errors weights)"

text \<open>
  The response \<open>dict\<close>. The body of a mocked success is synthesised from the endpoint
  catalogue (and, for POST and PUT, from the process-wide generator); it is opaque here.
\<close>

datatype body =
    Mock_data
  | Message_body string
  | Error_body string string string

record response =
  status_code :: int
  body :: body
  error :: "string option"
  tool_name :: string
  chaos_injected :: bool

definition mock_success_response :: "chaos_agent \<Rightarrow> string \<Rightarrow> response" where
  "mock_success_response self tool =
     (if \<not> mock_success_enabled (config self) then
        \<lparr>status_code = 200, body = Message_body ''Success mock disabled'', error = None,
         tool_name = tool, chaos_injected = False\<rparr>
      else
        \<lparr>status_code = 200, body = Mock_data, error = None,
         tool_name = tool, chaos_injected = False\<rparr>)"

definition mock_error_response ::
  "py_lib \<Rightarrow> chaos_agent \<Rightarrow> string \<Rightarrow> string \<Rightarrow> py_error + response" where
  "mock_error_response lib self tool error_code =
     (case map_of (chaos_strategies self) tool of
        None \<Rightarrow>
          Inr \<lparr>status_code = 404,
               body = Error_body ''404'' ''error'' (''Unknown operation: '' @ tool),
               error = Some ''Unknown operation'', tool_name = tool, chaos_injected = False\<rparr>
      | Some strategies \<Rightarrow>
          (case map_of strategies error_code of
             None \<Rightarrow>
               Inr \<lparr>status_code = 500,
                    body = Error_body ''500'' ''error'' ''Internal server error'',
                    error = Some ''Internal error'', tool_name = tool, chaos_injected = True\<rparr>
           | Some strategy \<Rightarrow>
               (case to_int lib error_code of
                  None \<Rightarrow> Inl ValueError
                | Some code \<Rightarrow>
                    Inr \<lparr>status_code = code,
                         body = Error_body error_code ''error'' (message strategy),
                         error = Some (''HTTP '' @ error_code), tool_name = tool,
                         chaos_injected = True\<rparr>)))"

text \<open>
  \<open>ChaosAgent.call\<close>: \<open>failure_rate\<close> and \<open>seed\<close> are optional and default to the
  configuration. The instance is returned with its counter as the call left it.
\<close>

definition call ::
  "py_lib \<Rightarrow> chaos_agent \<Rightarrow> string \<Rightarrow> real option \<Rightarrow> int option
     \<Rightarrow> (py_error + response) \<times> chaos_agent" where
  "call lib self tool failure_rate_arg seed_arg =
     (let failure_rate =
            (case failure_rate_arg of None \<Rightarrow> default_failure_rate (config self) | Some f \<Rightarrow> f);
          seed = (case seed_arg of None \<Rightarrow> default_seed (config self) | Some s \<Rightarrow> s);
          (inject_chaos, self') = should_inject_chaos lib self failure_rate seed
      in if \<not> inject_chaos then (Inr (mock_success_response self' tool), self')
         else
           (case select_error_code lib self' tool seed of
              Inl e \<Rightarrow> (Inl e, self')
            | Inr error_code \<Rightarrow> (mock_error_response lib self' tool error_code, self')))"

text \<open>A sequence of \<open>n\<close> calls on one instance with the same arguments, oldest first.\<close>

fun call_sequence ::
  "py_lib \<Rightarrow> chaos_agent \<Rightarrow> string \<Rightarrow> real option \<Rightarrow> int option \<Rightarrow> nat
     \<Rightarrow> (py_error + response) list" where
  "call_sequence lib self tool fr seed 0 = []"
| "call_sequence lib self tool fr seed (Suc n) =
     (let (r, self') = call lib self tool fr seed in r # call_sequence lib self' tool fr seed n)"

section \<open>TestAgent v3 (test\_agent\_adk\_v3.py)\<close>

text \<open>
  Logging and the counters of \<open>TestAgentMetrics\<close> are left out: nothing below reads them.
  What the agent is given from outside: the operation (\<open>chaos_agent_func\<close>) is an
  arbitrary callable: \<open>call_op a\<close> is what its invocation at attempt \<open>a\<close> does, a
  result \<open>dict\<close> or an exception with its message. The reasoner is the Gemini model
  behind \<open>generate_content\<close>. Its outcome at one decision is the decoded JSON value, or
  an \<open>Exception\<close> raised in the \<open>try\<close> block before a value is decoded, with its
  \<open>str\<close>:
  \<^item> \<open>Call_raises\<close>: an exception that is not a \<open>json.JSONDecodeError\<close>, raised by the
    model call or while the response text is read and stripped or decoded;
  \<^item> \<open>Decode_error_from_call\<close>: the model call itself raises \<open>json.JSONDecodeError\<close>, so
    that \<open>response\<close> is never bound;
  \<^item> \<open>Decode_error_from_text\<close>: \<open>response\<close> is bound and reading \<open>response.text\<close> raises
    \<open>json.JSONDecodeError\<close>, as it does again when a handler reads it;
  \<^item> \<open>Malformed_json\<close>: the text is read and \<open>json.loads\<close> rejects it (stripped of a
    Markdown fence where the code does that) with \<open>json.JSONDecodeError\<close>.
\<close>

record call_result =
  cr_status_code :: "int option"
  cr_error :: "string option"
  cr_chaos_injected :: "bool option"

text \<open>\<open>result.get('status_code', 500)\<close>.\<close>

definition result_status :: "call_result \<Rightarrow> int" where
  "result_status result = (case cr_status_code result of None \<Rightarrow> 500 | Some c \<Rightarrow> c)"

datatype reasoner_outcome =
    Call_raises string
  | Decode_error_from_call string
  | Decode_error_from_text string
  | Malformed_json string
  | Parsed json

text \<open>
  A playbook is the list under its key \<open>procedures\<close> (\<open>[]\<close> when the key is absent); an
  entry's \<open>error_codes\<close> is \<open>[]\<close> when absent, its \<open>recovery_strategy\<close> is read with
  \<open>procedure['recovery_strategy']\<close> and raises \<open>KeyError\<close> when absent.
\<close>

record procedure =
  error_codes :: "string list"
  recovery_strategy :: "string option"

type_synonym playbook = "procedure list"

record strategy =
  s_error_code :: int
  s_action :: "string option"
  s_max_retries :: int

record decision =
  d_action :: string
  d_reason :: json
  d_confidence :: json
  d_error_type :: json
  d_llm_reasoning :: "json option"
  d_llm_called :: bool

text \<open>\<open>result_json.get(key, default)\<close> on a decoded object.\<close>

definition dict_get :: "(string \<times> json) list \<Rightarrow> string \<Rightarrow> json \<Rightarrow> json" where
  "dict_get kvs key dflt = (case map_of kvs key of None \<Rightarrow> dflt | Some v \<Rightarrow> v)"

text \<open>
  The \<open>try\<close> block of \<open>decide_retry_tool\<close>: \<open>None\<close> when it raises. A decoded value
  that is not an object has no \<open>get\<close> (\<open>AttributeError\<close>).
\<close>

fun llm_decision :: "reasoner_outcome \<Rightarrow> decision option" where
  "llm_decision (Call_raises e) = None"
| "llm_decision (Decode_error_from_call e) = None"
| "llm_decision (Decode_error_from_text e) = None"
| "llm_decision (Malformed_json e) = None"
| "llm_decision (Parsed (JObj result_json)) =
     Some \<lparr>d_action = (if truthy (dict_get result_json ''should_retry'' (JBool False))
                       then ''retry'' else ''fail''),
           d_reason = dict_get result_json ''reasoning'' (JStr ''No reasoning''),
           d_confidence = dict_get result_json ''confidence'' (JFloat (1/2)),
           d_error_type = dict_get result_json ''error_type'' (JStr ''unknown''),
           d_llm_reasoning = Some (JObj result_json),
           d_llm_called = True\<rparr>"
| "llm_decision (Parsed other) = None"

text \<open>The \<open>except Exception\<close> branch of \<open>decide_retry_tool\<close>.\<close>

definition fallback_heuristic :: "string \<Rightarrow> int \<Rightarrow> int \<Rightarrow> int \<Rightarrow> decision" where
  "fallback_heuristic reason_text error_code attempt max_retries =
     (let should_retry = (error_code \<noteq> 400 \<and> error_code \<noteq> 422 \<and> attempt < max_retries)
      in \<lparr>d_action = (if should_retry then ''retry'' else ''fail''),
          d_reason = JStr reason_text,
          d_confidence = JFloat (1/2),
          d_error_type = JStr ''unknown'',
          d_llm_reasoning = None,
          d_llm_called = False\<rparr>)"

definition decide_retry_tool ::
  "reasoner_outcome \<Rightarrow> int \<Rightarrow> int \<Rightarrow> int \<Rightarrow> string \<Rightarrow> decision" where
  "decide_retry_tool outcome error_code attempt max_retries strategy_action =
     (case llm_decision outcome of
        Some decision \<Rightarrow> decision
      | None \<Rightarrow> fallback_heuristic ''Fallback heuristic'' error_code attempt max_retries)"

text \<open>\<open>TestAgentADK._tool_check_playbook\<close>: the \<open>for\<close> loop over the procedures.\<close>

fun check_procedures :: "procedure list \<Rightarrow> int \<Rightarrow> string \<Rightarrow> py_error + strategy" where
  "check_procedures [] error_code error_key =
     Inr \<lparr>s_error_code = error_code, s_action = Some ''fail'', s_max_retries = 0\<rparr>"
| "check_procedures (procedure # rest) error_code error_key =
     (if error_key \<in> set (error_codes procedure) then
        (case recovery_strategy procedure of
           None \<Rightarrow> Inl KeyError
         | Some action \<Rightarrow>
             Inr \<lparr>s_error_code = error_code, s_action = Some action, s_max_retries = 3\<rparr>)
      else check_procedures rest error_code error_key)"

definition tool_check_playbook :: "playbook \<Rightarrow> int \<Rightarrow> py_error + strategy" where
  "tool_check_playbook playbook error_code =
     (let error_key = str_int error_code in check_procedures playbook error_code error_key)"

text \<open>\<open>TestAgentADK._tool_decide_retry\<close>: \<open>strategy.get('action', 'unknown')\<close>.\<close>

definition tool_decide_retry ::
  "reasoner_outcome \<Rightarrow> int \<Rightarrow> int \<Rightarrow> int \<Rightarrow> strategy \<Rightarrow> decision" where
  "tool_decide_retry outcome error_code attempt max_retries strategy =
     decide_retry_tool outcome error_code attempt max_retries
       (case s_action strategy of None \<Rightarrow> ''unknown'' | Some a \<Rightarrow> a)"

text \<open>
  \<open>TestAgentADK._tool_apply_backoff\<close>: the delay it sleeps for and returns as
  \<open>delay_applied\<close>, for a float \<open>base_delay\<close>. For a non-negative exponent
  \<open>2 ** (attempt - 1)\<close> is an \<open>int\<close>, and multiplying the float by it converts it to a
  float, which raises \<open>OverflowError\<close> from \<open>2 ** 1024\<close> on. For a negative exponent
  \<open>2 ** (attempt - 1)\<close> is the float power: the exponent is converted to a float (which
  raises for an exponent too large in magnitude), and the power is exact down to
  \<open>2 ** -1074\<close> and \<open>0.0\<close> below. Memory is not bounded here: the \<open>int\<close> power is
  taken to be computed, however large.
\<close>

definition tool_apply_backoff :: "int \<Rightarrow> real \<Rightarrow> py_error + py_delay" where
  "tool_apply_backoff attempt base_delay =
     (let exponent = attempt - 1
      in if 0 \<le> exponent then
           (if 1024 \<le> exponent then Inl OverflowError
            else Inr (min_ten (float_scale base_delay (2 ^ nat exponent))))
         else
           (if float_overflow_bound \<le> - exponent then Inl OverflowError
            else Inr (min_ten (float_scale base_delay
                                 (if - 1074 \<le> exponent then 1 / 2 ^ nat (- exponent)
                                  else 0)))))"

definition default_base_delay :: real where
  "default_base_delay = 1/2"

text \<open>
  What a test does besides returning its result: the operation invoked at an attempt, a
  retry decision obtained, a backoff slept. The trace lists them in the order they happen.
\<close>

datatype 'd event = Invoked int | Decided 'd | Slept py_delay

record test_result =
  test_id :: string
  operation :: string
  ok :: bool
  attempts :: int
  final_status :: "int option"
  tr_error :: "string option"
  reason :: "string option"
  decision :: "decision option"

text \<open>The local \<open>max_retries = 3\<close> of \<open>_run_single_test\<close>.\<close>

definition run_max_retries :: int where
  "run_max_retries = 3"

text \<open>
  \<open>TestAgentADK._run_single_test\<close>: the \<open>while attempt < max_retries\<close> loop, entered with
  the current \<open>attempt\<close> and the trace so far.
\<close>

function run_single_test_loop ::
  "playbook \<Rightarrow> (int \<Rightarrow> string + call_result) \<Rightarrow> (int \<Rightarrow> reasoner_outcome)
     \<Rightarrow> string \<Rightarrow> string \<Rightarrow> int \<Rightarrow> decision event list
     \<Rightarrow> (py_error + test_result) \<times> decision event list" where
  "run_single_test_loop playbook call_op reasoner tid opn attempt0 trace =
     (if attempt0 < run_max_retries then
        (let attempt = attempt0 + 1;
             trace1 = trace @ [Invoked attempt]
         in case call_op attempt of
              Inl msg \<Rightarrow> (Inl (Raised msg), trace1)
            | Inr result \<Rightarrow>
                (let status = result_status result;
                     err = cr_error result
                 in if status = 200 then
                      (Inr \<lparr>test_id = tid, operation = opn, ok = True, attempts = attempt,
                            final_status = Some status, tr_error = None, reason = None,
                            decision = None\<rparr>, trace1)
                    else
                      (case tool_check_playbook playbook status of
                         Inl e \<Rightarrow> (Inl e, trace1)
                       | Inr strategy \<Rightarrow>
                           (let d = tool_decide_retry (reasoner attempt) status attempt
                                      run_max_retries strategy;
                                trace2 = trace1 @ [Decided d]
                            in if d_action d \<noteq> ''retry'' \<or> attempt \<ge> run_max_retries then
                                 (Inr \<lparr>test_id = tid, operation = opn, ok = False,
                                       attempts = attempt, final_status = Some status,
                                       tr_error = err, reason = Some (d_action d),
                                       decision = Some d\<rparr>, trace2)
                               else
                                 (case tool_apply_backoff attempt default_base_delay of
                                    Inl e \<Rightarrow> (Inl e, trace2)
                                  | Inr delay \<Rightarrow>
                                      run_single_test_loop playbook call_op reasoner tid opn
                                        attempt (trace2 @ [Slept delay]))))))
      else
        (Inr \<lparr>test_id = tid, operation = opn, ok = False, attempts = attempt0,
              final_status = None, tr_error = None,
              reason = Some ''max_retries_exceeded'', decision = None\<rparr>, trace))"
  by pat_completeness auto
termination
  by (relation "measure (\<lambda>(playbook, call_op, reasoner, tid, opn, attempt0, trace).
                  nat (run_max_retries - attempt0))") auto

definition run_single_test ::
  "playbook \<Rightarrow> (int \<Rightarrow> string + call_result) \<Rightarrow> (int \<Rightarrow> reasoner_outcome)
     \<Rightarrow> string \<Rightarrow> string \<Rightarrow> (py_error + test_result) \<times> decision event list" where
  "run_single_test playbook call_op reasoner tid opn =
     run_single_test_loop playbook call_op reasoner tid opn 0 []"

section \<open>TestAgent v3, simplified (test\_agent\_adk\_v3\_v2.py)\<close>

text \<open>
  The text of \<open>str(e)\<close> for the exception the \<open>try\<close> block ends with; a decoded value
  that is not an object raises \<open>AttributeError\<close> at its first \<open>get\<close>.
\<close>

fun type_name :: "json \<Rightarrow> string" where
  "type_name JNull = ''NoneType''"
| "type_name (JBool b) = ''bool''"
| "type_name (JInt i) = ''int''"
| "type_name (JFloat x) = ''float''"
| "type_name (JStr s) = ''str''"
| "type_name (JArr xs) = ''list''"
| "type_name (JObj kvs) = ''dict''"

fun exception_text :: "reasoner_outcome \<Rightarrow> string" where
  "exception_text (Call_raises e) = e"
| "exception_text (Decode_error_from_call e) = e"
| "exception_text (Decode_error_from_text e) = e"
| "exception_text (Malformed_json e) = e"
| "exception_text (Parsed v) =
     [CHR 0x27] @ type_name v @ [CHR 0x27] @ '' object has no attribute '' @
     [CHR 0x27] @ ''get'' @ [CHR 0x27]"

text \<open>
  \<open>_tool_decide_retry\<close> of this file: the same \<open>try\<close> block as \<open>decide_retry_tool\<close>,
  and a fallback whose reason quotes the exception.
\<close>

definition tool_decide_retry_v3_v2 ::
  "reasoner_outcome \<Rightarrow> int \<Rightarrow> int \<Rightarrow> int \<Rightarrow> strategy \<Rightarrow> decision" where
  "tool_decide_retry_v3_v2 outcome error_code attempt max_retries strategy =
     (case llm_decision outcome of
        Some d \<Rightarrow> d
      | None \<Rightarrow>
          fallback_heuristic (''Fallback (error: '' @ exception_text outcome @ '')'')
            error_code attempt max_retries)"

text \<open>
  \<open>_run_single_test\<close> of this file, as its text reads. (By their indentation the
  definitions from \<open>_tool_decide_retry\<close> on follow the \<open>return\<close>s of a module-level
  function, so the class of this file never receives them.) The playbook is consulted
  before the reasoner, and a refusal by the playbook returns without a decision.
\<close>

function run_single_test_loop_v3_v2 ::
  "playbook \<Rightarrow> (int \<Rightarrow> string + call_result) \<Rightarrow> (int \<Rightarrow> reasoner_outcome)
     \<Rightarrow> string \<Rightarrow> string \<Rightarrow> int \<Rightarrow> decision event list
     \<Rightarrow> (py_error + test_result) \<times> decision event list" where
  "run_single_test_loop_v3_v2 playbook call_op reasoner tid opn attempt0 trace =
     (if attempt0 < run_max_retries then
        (let attempt = attempt0 + 1;
             trace1 = trace @ [Invoked attempt]
         in case call_op attempt of
              Inl msg \<Rightarrow> (Inl (Raised msg), trace1)
            | Inr result \<Rightarrow>
                (let status = result_status result;
                     err = cr_error result
                 in if status = 200 then
                      (Inr \<lparr>test_id = tid, operation = opn, ok = True, attempts = attempt,
                            final_status = Some status, tr_error = None, reason = None,
                            decision = None\<rparr>, trace1)
                    else
                      (case tool_check_playbook playbook status of
                         Inl e \<Rightarrow> (Inl e, trace1)
                       | Inr strategy \<Rightarrow>
                           if s_action strategy \<noteq> Some ''retry'' \<or> attempt \<ge> run_max_retries then
                             (Inr \<lparr>test_id = tid, operation = opn, ok = False,
                                   attempts = attempt, final_status = Some status,
                                   tr_error = err, reason = s_action strategy,
                                   decision = None\<rparr>, trace1)
                           else
                             (let d = tool_decide_retry_v3_v2 (reasoner attempt) status attempt
                                        run_max_retries strategy;
                                  trace2 = trace1 @ [Decided d]
                              in if d_action d \<noteq> ''retry'' then
                                   (Inr \<lparr>test_id = tid, operation = opn, ok = False,
                                         attempts = attempt, final_status = Some status,
                                         tr_error = err, reason = None,
                                         decision = Some d\<rparr>, trace2)
                                 else
                                   (case tool_apply_backoff attempt default_base_delay of
                                      Inl e \<Rightarrow> (Inl e, trace2)
                                    | Inr delay \<Rightarrow>
                                        run_single_test_loop_v3_v2 playbook call_op reasoner tid
                                          opn attempt (trace2 @ [Slept delay]))))))
      else
        (Inr \<lparr>test_id = tid, operation = opn, ok = False, attempts = attempt0,
              final_status = None, tr_error = None,
              reason = Some ''max_retries_exceeded'', decision = None\<rparr>, trace))"
  by pat_completeness auto
termination
  by (relation "measure (\<lambda>(playbook, call_op, reasoner, tid, opn, attempt0, trace).
                  nat (run_max_retries - attempt0))") auto

definition run_single_test_v3_v2 ::
  "playbook \<Rightarrow> (int \<Rightarrow> string + call_result) \<Rightarrow> (int \<Rightarrow> reasoner_outcome)
     \<Rightarrow> string \<Rightarrow> string \<Rightarrow> (py_error + test_result) \<times> decision event list" where
  "run_single_test_v3_v2 playbook call_op reasoner tid opn =
     run_single_test_loop_v3_v2 playbook call_op reasoner tid opn 0 []"

section \<open>TestAgent with the reasoner in the loop (test\_agent\_adk\_v2.py)\<close>

text \<open>
  Playbook entries and strategies of this file are \<open>dict\<close>s read key by key; a field is
  \<open>None\<close> when its key is absent. \<open>p2_error_code\<close> is
  \<open>str(procedure.get('error_code', ''))\<close>.
\<close>

record procedure2 =
  p2_error_code :: string
  p2_action :: "string option"
  p2_max_retries :: "int option"
  p2_backoff_seconds :: "py_number option"
  p2_reason :: "string option"

record strategy2 =
  s2_found :: bool
  s2_error_code :: int
  s2_action :: "string option"
  s2_max_retries :: "int option"
  s2_backoff_seconds :: "py_number option"
  s2_reason :: "string option"

record decision2 =
  d2_action :: string
  d2_reason :: "json option"
  d2_confidence :: "json option"
  d2_error_type :: "json option"
  d2_attempt :: "int option"
  d2_max_retries :: "int option"
  d2_llm_reasoning :: "json option"
  d2_llm_called :: "bool option"
  d2_fallback :: "bool option"

definition or_default :: "'a option \<Rightarrow> 'a \<Rightarrow> 'a" where
  "or_default v dflt = (case v of None \<Rightarrow> dflt | Some x \<Rightarrow> x)"

fun tool_check_playbook_v2 :: "procedure2 list \<Rightarrow> int \<Rightarrow> strategy2" where
  "tool_check_playbook_v2 [] error_code =
     \<lparr>s2_found = False, s2_error_code = error_code, s2_action = Some ''fail'',
      s2_max_retries = Some 0, s2_backoff_seconds = None,
      s2_reason = Some ''No strategy in playbook for this error''\<rparr>"
| "tool_check_playbook_v2 (procedure # rest) error_code =
     (if p2_error_code procedure = str_int error_code then
        \<lparr>s2_found = True, s2_error_code = error_code,
         s2_action = Some (or_default (p2_action procedure) ''fail''),
         s2_max_retries = Some (or_default (p2_max_retries procedure) 0),
         s2_backoff_seconds = Some (or_default (p2_backoff_seconds procedure) (Py_int 1)),
         s2_reason = Some (or_default (p2_reason procedure) ''No reason provided'')\<rparr>
      else tool_check_playbook_v2 rest error_code)"

text \<open>\<open>TestAgentADK._fallback_decide_retry\<close>.\<close>

definition fallback_decide_retry ::
  "int \<Rightarrow> int \<Rightarrow> int \<Rightarrow> strategy2 \<Rightarrow> py_error + decision2" where
  "fallback_decide_retry error_code attempt max_retries strategy =
     (let fallback_decision = (\<lambda>action reason_text.
            \<lparr>d2_action = action, d2_reason = Some (JStr reason_text), d2_confidence = None,
             d2_error_type = None, d2_attempt = Some attempt,
             d2_max_retries = Some max_retries, d2_llm_reasoning = None,
             d2_llm_called = Some False, d2_fallback = Some True\<rparr>)
      in if attempt \<ge> max_retries then Inr (fallback_decision ''fail'' ''Max retries reached'')
         else
           (case s2_action strategy of
              None \<Rightarrow> Inl KeyError
            | Some action \<Rightarrow>
                if action = ''retry'' then
                  Inr (fallback_decision ''retry'' ''Playbook recommends retry'')
                else Inr (fallback_decision ''fail'' ''Playbook recommends failure'')))"

text \<open>
  \<open>TestAgentADK._tool_decide_retry\<close>. The prompt is formatted before the \<open>try\<close> and reads
  \<open>strategy['action']\<close>, \<open>strategy['reason']\<close> and \<open>strategy['backoff_seconds']\<close>. Inside
  the \<open>try\<close>, \<open>result_json['should_retry']\<close>, \<open>['reasoning']\<close> and \<open>['confidence']\<close>
  raise \<open>KeyError\<close> when the key is missing and \<open>TypeError\<close> when the value is not an
  object. \<open>None\<close> is "the \<open>try\<close> block raises".
\<close>

fun llm_decision_v2 :: "reasoner_outcome \<Rightarrow> int \<Rightarrow> int \<Rightarrow> decision2 option" where
  "llm_decision_v2 (Call_raises e) attempt max_retries = None"
| "llm_decision_v2 (Decode_error_from_call e) attempt max_retries = None"
| "llm_decision_v2 (Decode_error_from_text e) attempt max_retries = None"
| "llm_decision_v2 (Malformed_json e) attempt max_retries = None"
| "llm_decision_v2 (Parsed (JObj result_json)) attempt max_retries =
     (case map_of result_json ''should_retry'' of
        None \<Rightarrow> None
      | Some should_retry \<Rightarrow>
          (case map_of result_json ''reasoning'' of
             None \<Rightarrow> None
           | Some reasoning \<Rightarrow>
               (case map_of result_json ''confidence'' of
                  None \<Rightarrow> None
                | Some confidence \<Rightarrow>
                    Some \<lparr>d2_action = (if truthy should_retry then ''retry'' else ''fail''),
                          d2_reason = Some reasoning,
                          d2_confidence = Some confidence,
                          d2_error_type =
                            Some (dict_get result_json ''error_type'' (JStr ''unknown'')),
                          d2_attempt = Some attempt,
                          d2_max_retries = Some max_retries,
                          d2_llm_reasoning = Some (JObj result_json),
                          d2_llm_called = Some True,
                          d2_fallback = None\<rparr>)))"
| "llm_decision_v2 (Parsed other) attempt max_retries = None"

text \<open>
  The two handlers of that \<open>try\<close>. The handler for \<open>json.JSONDecodeError\<close> logs
  \<open>response.text\<close> before it falls back: when the model call raised the error,
  \<open>response\<close> is unbound and the handler raises \<open>UnboundLocalError\<close>; when reading
  the text raised it, reading it again raises it again. Both propagate. The handler for
  any other \<open>Exception\<close> falls back. \<open>None\<close> is "falls back".
\<close>

fun handler_raises_v2 :: "reasoner_outcome \<Rightarrow> py_error option" where
  "handler_raises_v2 (Decode_error_from_call e) = Some UnboundLocalError"
| "handler_raises_v2 (Decode_error_from_text e) = Some (Raised e)"
| "handler_raises_v2 (Call_raises e) = None"
| "handler_raises_v2 (Malformed_json e) = None"
| "handler_raises_v2 (Parsed v) = None"

definition tool_decide_retry_v2 ::
  "reasoner_outcome \<Rightarrow> int \<Rightarrow> int \<Rightarrow> int \<Rightarrow> strategy2 \<Rightarrow> py_error + decision2" where
  "tool_decide_retry_v2 outcome error_code attempt max_retries strategy =
     (if s2_action strategy = None \<or> s2_reason strategy = None
           \<or> s2_backoff_seconds strategy = None
      then Inl KeyError
      else
        (case llm_decision_v2 outcome attempt max_retries of
           Some d \<Rightarrow> Inr d
         | None \<Rightarrow>
             (case handler_raises_v2 outcome of
                Some e \<Rightarrow> Inl e
              | None \<Rightarrow> fallback_decide_retry error_code attempt max_retries strategy)))"

text \<open>
  \<open>TestAgentADK._tool_call_operation\<close> of this file: an unset callable and a raising one
  both become a \<open>500\<close> result.
\<close>

definition tool_call_operation_v2 ::
  "(int \<Rightarrow> string + call_result) option \<Rightarrow> int \<Rightarrow> call_result" where
  "tool_call_operation_v2 chaos_agent_func attempt =
     (case chaos_agent_func of
        None \<Rightarrow>
          \<lparr>cr_status_code = Some 500, cr_error = Some ''ChaosAgent not initialized'',
           cr_chaos_injected = Some False\<rparr>
      | Some f \<Rightarrow>
          (case f attempt of
             Inl msg \<Rightarrow>
               \<lparr>cr_status_code = Some 500, cr_error = Some msg,
                cr_chaos_injected = Some False\<rparr>
           | Inr result \<Rightarrow> result))"

record test_spec =
  ts_test_id :: string
  ts_operation :: string

record test_result2 =
  r2_test_id :: string
  r2_operation :: string
  r2_status_code :: int
  r2_ok :: bool
  r2_chaos_injected :: bool
  r2_error :: "string option"
  r2_attempts :: int
  r2_decision :: decision2
  r2_playbook_used :: bool
  r2_llm_used :: bool

definition success_decision :: decision2 where
  "success_decision =
     \<lparr>d2_action = ''success'', d2_reason = None, d2_confidence = None, d2_error_type = None,
      d2_attempt = None, d2_max_retries = None, d2_llm_reasoning = None,
      d2_llm_called = None, d2_fallback = None\<rparr>"

text \<open>
  The delay \<open>run_test\<close> sleeps before its recursive retry,
  \<open>playbook_strategy.get('backoff_seconds', 1) * attempt\<close>, for a \<open>backoff_seconds\<close> that
  is a number: the exact product of two \<open>int\<close>s, or the float product of a float and
  the \<open>int\<close>, which raises \<open>OverflowError\<close> when the \<open>int\<close> is too large for a float.
\<close>

definition run_test_backoff :: "strategy2 \<Rightarrow> int \<Rightarrow> py_error + py_delay" where
  "run_test_backoff playbook_strategy attempt =
     (case or_default (s2_backoff_seconds playbook_strategy) (Py_int 1) of
        Py_int seconds \<Rightarrow> Inr (Int_delay (seconds * attempt))
      | Py_float seconds \<Rightarrow>
          if float_overflow_bound \<le> \<bar>attempt\<bar> then Inl OverflowError
          else Inr (Float_times_int seconds attempt))"

text \<open>
  \<open>TestAgentADK.run_test\<close>: a retry is a recursive call with \<open>attempt + 1\<close>, and nothing
  in \<open>run_test\<close> bounds the number of retries. The first argument is the depth of
  recursion the interpreter still allows; a call at depth zero raises \<open>RecursionError\<close>
  (at which statement of the deepest call the interpreter raises it is not modelled).
\<close>

fun run_test ::
  "nat \<Rightarrow> procedure2 list \<Rightarrow> (int \<Rightarrow> string + call_result) option
     \<Rightarrow> (int \<Rightarrow> reasoner_outcome) \<Rightarrow> test_spec \<Rightarrow> int \<Rightarrow> decision2 event list
     \<Rightarrow> (py_error + test_result2) \<times> decision2 event list" where
  "run_test 0 playbook chaos_agent_func reasoner spec attempt trace =
     (Inl RecursionError, trace)"
| "run_test (Suc depth) playbook chaos_agent_func reasoner spec attempt trace =
     (let trace1 = trace @ [Invoked attempt];
          call_result = tool_call_operation_v2 chaos_agent_func attempt
      in case cr_status_code call_result of
           None \<Rightarrow> (Inl KeyError, trace1)
         | Some status \<Rightarrow>
             if status \<ge> 400 then
               (let playbook_strategy = tool_check_playbook_v2 playbook status
                in case tool_decide_retry_v2 (reasoner attempt) status attempt
                          (or_default (s2_max_retries playbook_strategy) 0) playbook_strategy of
                     Inl e \<Rightarrow> (Inl e, trace1)
                   | Inr d \<Rightarrow>
                       (let trace2 = trace1 @ [Decided d]
                        in if d2_action d = ''retry'' then
                             (case run_test_backoff playbook_strategy attempt of
                                Inl e \<Rightarrow> (Inl e, trace2)
                              | Inr backoff \<Rightarrow>
                                  run_test depth playbook chaos_agent_func reasoner spec
                                    (attempt + 1) (trace2 @ [Slept backoff]))
                           else
                             (Inr \<lparr>r2_test_id = ts_test_id spec,
                                   r2_operation = ts_operation spec,
                                   r2_status_code = status, r2_ok = False,
                                   r2_chaos_injected =
                                     or_default (cr_chaos_injected call_result) False,
                                   r2_error = cr_error call_result,
                                   r2_attempts = attempt, r2_decision = d,
                                   r2_playbook_used = True, r2_llm_used = True\<rparr>, trace2)))
             else
               (Inr \<lparr>r2_test_id = ts_test_id spec, r2_operation = ts_operation spec,
                     r2_status_code = status, r2_ok = True,
                     r2_chaos_injected = or_default (cr_chaos_injected call_result) False,
                     r2_error = None, r2_attempts = attempt, r2_decision = success_decision,
                     r2_playbook_used = (attempt \<noteq> 1), r2_llm_used = (attempt \<noteq> 1)\<rparr>,
                trace1))"

section \<open>Reading a trace\<close>

text \<open>The attempts invoked, the decisions obtained and the delays slept, each in order.\<close>

fun invocations :: "'d event list \<Rightarrow> int list" where
  "invocations [] = []"
| "invocations (Invoked a # es) = a # invocations es"
| "invocations (Decided d # es) = invocations es"
| "invocations (Slept s # es) = invocations es"

fun decisions :: "'d event list \<Rightarrow> 'd list" where
  "decisions [] = []"
| "decisions (Invoked a # es) = decisions es"
| "decisions (Decided d # es) = d # decisions es"
| "decisions (Slept s # es) = decisions es"

fun sleeps :: "'d event list \<Rightarrow> py_delay list" where
  "sleeps [] = []"
| "sleeps (Invoked a # es) = sleeps es"
| "sleeps (Decided d # es) = sleeps es"
| "sleeps (Slept s # es) = s # sleeps es"

section \<open>What a run leaves behind\<close>

text \<open>
  The postcondition of the loop of \<open>_run_single_test\<close> entered at \<open>attempt0 \<ge> 0\<close> with
  a trace, when \<open>k\<close> is the last attempt it invokes: the attempts \<open>attempt0 + 1\<close> to \<open>k\<close>
  were invoked in order, a backoff was slept after each but the last, an exception is the
  one of the last invocation or of the playbook lookup that follows it, and a result
  reports \<open>k\<close> attempts, succeeds exactly when the last status is \<open>200\<close>, and holds no
  decision on success and the last decision made on failure; every decision made is a
  \<open>retry\<close> or a \<open>fail\<close>.
\<close>

definition loop_post ::
  "playbook \<Rightarrow> (int \<Rightarrow> string + call_result) \<Rightarrow> int \<Rightarrow> decision event list \<Rightarrow> int
     \<Rightarrow> (py_error + test_result) \<times> decision event list \<Rightarrow> bool" where
  "loop_post playbook call_op attempt0 trace k outcome \<longleftrightarrow>
     invocations (snd outcome) = invocations trace @ [attempt0 + 1..k]
     \<and> sleeps (snd outcome)
         = sleeps trace
           @ map (\<lambda>j. Float_delay (Finite (default_base_delay * 2 ^ nat (j - 1))))
               [attempt0 + 1..k - 1]
     \<and> (case fst outcome of
          Inl e \<Rightarrow>
            (\<exists>msg. call_op k = Inl msg \<and> e = Raised msg)
            \<or> (\<exists>r. call_op k = Inr r \<and> result_status r \<noteq> 200
                   \<and> tool_check_playbook playbook (result_status r) = Inl e)
        | Inr res \<Rightarrow>
            attempts res = k
            \<and> (\<exists>r. call_op k = Inr r \<and> ok res = (result_status r = 200))
            \<and> (if ok res then
                  decision res = None \<and> reason res = None
                  \<and> int (length (decisions (snd outcome)))
                      = int (length (decisions trace)) + (k - attempt0 - 1)
                else
                  decisions (snd outcome) \<noteq> []
                  \<and> decision res = Some (last (decisions (snd outcome)))
                  \<and> reason res = Some (d_action (last (decisions (snd outcome))))
                  \<and> int (length (decisions (snd outcome)))
                      = int (length (decisions trace)) + (k - attempt0)))
     \<and> (\<forall>d \<in> set (decisions (snd outcome)).
            d \<in> set (decisions trace) \<or> d_action d = ''retry'' \<or> d_action d = ''fail'')"

text \<open>The same for the loop of test\_agent\_adk\_v3\_v2.py, as far as it is used below.\<close>

definition loop_post_v3_v2 ::
  "playbook \<Rightarrow> (int \<Rightarrow> string + call_result) \<Rightarrow> int \<Rightarrow> decision event list \<Rightarrow> int
     \<Rightarrow> (py_error + test_result) \<times> decision event list \<Rightarrow> bool" where
  "loop_post_v3_v2 playbook call_op attempt0 trace k outcome \<longleftrightarrow>
     invocations (snd outcome) = invocations trace @ [attempt0 + 1..k]
     \<and> (case fst outcome of
          Inl e \<Rightarrow>
            (\<exists>msg. call_op k = Inl msg \<and> e = Raised msg)
            \<or> (\<exists>r. call_op k = Inr r \<and> result_status r \<noteq> 200
                   \<and> tool_check_playbook playbook (result_status r) = Inl e)
        | Inr res \<Rightarrow>
            attempts res = k
            \<and> (\<exists>r. call_op k = Inr r \<and> ok res = (result_status r = 200)))"

declare run_single_test_loop.simps [simp del]
declare run_single_test_loop_v3_v2.simps [simp del]

section \<open>Example inputs\<close>

text \<open>
  The library at the points the examples below use, with the values CPython 3.11 computes:
  \<open>random.Random(43).random()\<close> is \<open>0.038551839337380045\<close>, for seed \<open>44\<close> it is
  \<open>0.40853587925449375\<close>, for seed \<open>45\<close> it is \<open>0.2718754143840908\<close> (written as the
  exact fractions of these doubles), and
  \<open>random.Random(42).choices(['400', '404'], weights=[40, 30], k=1)[0]\<close> is \<open>'404'\<close>.
\<close>

definition example_lib :: py_lib where
  "example_lib =
     \<lparr>variate = (\<lambda>s. if s = 43 then 5425689039821 / 140737488355328
                     else if s = 44 then 57496313549313 / 140737488355328
                     else if s = 45 then 2448836029822781 / 9007199254740992
                     else 0),
      choices = (\<lambda>seed population weights.
                   if seed = 42 \<and> population = [''400'', ''404''] \<and> weights = [40, 30]
                   then Inr ''404'' else Inl ValueError),
      to_int = (\<lambda>s. if s = ''404'' then Some 404 else if s = ''400'' then Some 400 else None)\<rparr>"

text \<open>A fresh agent over a catalogue with one operation that documents two errors.\<close>

definition example_agent :: chaos_agent where
  "example_agent =
     \<lparr>config = \<lparr>default_failure_rate = 0, default_seed = 42,
                 error_weights = [(''400'', 40), (''404'', 30), (''422'', 20), (''500'', 10)],
                 mock_success_enabled = True\<rparr>,
      chaos_strategies =
        [(''getPetById'',
          [(''400'', \<lparr>message = ''Invalid ID supplied'', http_method = ''GET'',
                      path = ''/pet/{petId}''\<rparr>),
           (''404'', \<lparr>message = ''Pet not found'', http_method = ''GET'',
                      path = ''/pet/{petId}''\<rparr>)])],
      call_counter = None\<rparr>"

text \<open>
  The playbook of the scenario "503 is retried", an operation that answers \<open>503\<close> at
  every attempt, a reasoner that always answers "retry", one that answers "retry" at the
  first four attempts, and one that answers "retry" at the first attempt only.
\<close>

definition example_playbook :: playbook where
  "example_playbook = [\<lparr>error_codes = [''503''], recovery_strategy = Some ''retry''\<rparr>]"

definition always_503 :: "int \<Rightarrow> string + call_result" where
  "always_503 = (\<lambda>attempt. Inr \<lparr>cr_status_code = Some 503, cr_error = Some ''HTTP 503'',
                                   cr_chaos_injected = Some True\<rparr>)"

definition answer_retry :: json where
  "answer_retry =
     JObj [(''should_retry'', JBool True), (''reasoning'', JStr ''transient''),
           (''confidence'', JFloat (9/10)), (''error_type'', JStr ''transient'')]"

definition answer_stop :: json where
  "answer_stop =
     JObj [(''should_retry'', JBool False), (''reasoning'', JStr ''give up''),
           (''confidence'', JFloat (8/10)), (''error_type'', JStr ''permanent'')]"

definition always_retry :: "int \<Rightarrow> reasoner_outcome" where
  "always_retry = (\<lambda>attempt. Parsed answer_retry)"

definition retry_four_times :: "int \<Rightarrow> reasoner_outcome" where
  "retry_four_times =
     (\<lambda>attempt. if attempt \<le> 4 then Parsed answer_retry else Parsed answer_stop)"

definition retry_once :: "int \<Rightarrow> reasoner_outcome" where
  "retry_once = (\<lambda>attempt. if attempt = 1 then Parsed answer_retry else Parsed answer_stop)"

text \<open>The same scenario for test\_agent\_adk\_v2.py, with a backoff base of one second.\<close>

definition example_playbook_v2 :: "procedure2 list" where
  "example_playbook_v2 =
     [\<lparr>p2_error_code = ''503'', p2_action = Some ''retry'', p2_max_retries = Some 3,
       p2_backoff_seconds = Some (Py_int 1), p2_reason = Some ''Service unavailable''\<rparr>]"

definition example_spec :: test_spec where
  "example_spec = \<lparr>ts_test_id = ''t1'', ts_operation = ''getPetById''\<rparr>"

definition example_strategy_v2 :: strategy2 where
  "example_strategy_v2 =
     \<lparr>s2_found = True, s2_error_code = 503, s2_action = Some ''retry'',
      s2_max_retries = Some 3, s2_backoff_seconds = Some (Py_int 1),
      s2_reason = Some ''Service unavailable''\<rparr>"

section \<open>The fault-injection decision\<close>

text \<open>
  C5. For every seed and every state of the instance, \<open>_should_inject_chaos\<close> returns
  \<open>False\<close> whenever \<open>failure_rate \<le> 0.0\<close>, returns \<open>True\<close> whenever
  \<open>failure_rate \<ge> 1.0\<close>, and for \<open>0 < failure_rate < 1\<close> returns \<open>True\<close> exactly when
  the variate it generates (the first variate of the generator seeded with
  \<open>seed + _call_counter\<close>, the counter just incremented) is strictly less than
  \<open>failure_rate\<close>.
\<close>

theorem should_inject_chaos_contract:
  "(failure_rate \<le> 0 \<longrightarrow> fst (should_inject_chaos lib self failure_rate seed) = False)
   \<and> (failure_rate \<ge> 1 \<longrightarrow> fst (should_inject_chaos lib self failure_rate seed) = True)
   \<and> (0 < failure_rate \<and> failure_rate < 1 \<longrightarrow>
        fst (should_inject_chaos lib self failure_rate seed)
          = (variate lib (seed + ((case call_counter self of None \<Rightarrow> 0 | Some c \<Rightarrow> c) + 1))
               < failure_rate))"
  by (simp add: should_inject_chaos_def Let_def)

theorem should_inject_chaos_contract_witness:
  "fst (should_inject_chaos example_lib example_agent 0 42) = False
   \<and> fst (should_inject_chaos example_lib example_agent 1 42) = True
   \<and> (0 < (3/10 :: real) \<and> (3/10 :: real) < 1)
   \<and> fst (should_inject_chaos example_lib example_agent (3/10) 42) = True
   \<and> fst (should_inject_chaos example_lib (example_agent\<lparr>call_counter := Some 1\<rparr>) (3/10) 42)
       = False"
  using should_inject_chaos_contract [of 0 example_lib example_agent 42]
        should_inject_chaos_contract [of 1 example_lib example_agent 42]
        should_inject_chaos_contract [of "3/10" example_lib example_agent 42]
        should_inject_chaos_contract
          [of "3/10" example_lib "example_agent\<lparr>call_counter := Some 1\<rparr>" 42]
  by (simp add: example_lib_def example_agent_def)

text \<open>
  The decision is not a function of its arguments alone. On one instance, two successive
  calls with the same \<open>failure_rate = 0.3\<close> and \<open>seed = 42\<close> read the generators seeded
  with \<open>43\<close> and \<open>44\<close>: the first call injects, the second does not.
\<close>

theorem should_inject_chaos_repeat_disagrees:
  "fst (should_inject_chaos example_lib
          (snd (should_inject_chaos example_lib example_agent (3/10) 42)) (3/10) 42)
   \<noteq> fst (should_inject_chaos example_lib example_agent (3/10) 42)"
  by (simp add: should_inject_chaos_def example_lib_def example_agent_def Let_def)

text \<open>
  C1, as the code has it. The draw index is not an argument: it is the per-instance
  attribute \<open>_call_counter\<close>, which every call with \<open>0 < failure_rate < 1\<close> increments.
  For fixed \<open>seed\<close>, \<open>failure_rate\<close> and counter value the decision is the same on every
  instance, namely whether the first variate of the generator seeded with
  \<open>seed + counter + 1\<close> is below \<open>failure_rate\<close>, and the call leaves the counter one
  higher.
\<close>

theorem should_inject_chaos_counter_determined:
  assumes "0 < failure_rate" and "failure_rate < 1"
    and "call_counter self1 = call_counter self2"
  shows "fst (should_inject_chaos lib self1 failure_rate seed)
           = fst (should_inject_chaos lib self2 failure_rate seed)
         \<and> fst (should_inject_chaos lib self1 failure_rate seed)
           = (variate lib (seed + ((case call_counter self1 of None \<Rightarrow> 0 | Some c \<Rightarrow> c) + 1))
                < failure_rate)
         \<and> call_counter (snd (should_inject_chaos lib self1 failure_rate seed))
           = Some ((case call_counter self1 of None \<Rightarrow> 0 | Some c \<Rightarrow> c) + 1)"
  using assms by (simp add: should_inject_chaos_def Let_def)

theorem should_inject_chaos_counter_determined_witness:
  "fst (should_inject_chaos example_lib (example_agent\<lparr>call_counter := Some 2\<rparr>) (3/10) 42)
     = fst (should_inject_chaos example_lib
              (example_agent\<lparr>call_counter := Some 2, chaos_strategies := []\<rparr>) (3/10) 42)
   \<and> fst (should_inject_chaos example_lib (example_agent\<lparr>call_counter := Some 2\<rparr>) (3/10) 42)
     = True
   \<and> call_counter (snd (should_inject_chaos example_lib
                           (example_agent\<lparr>call_counter := Some 2\<rparr>) (3/10) 42))
     = Some 3"
proof -
  have h1: "0 < (3/10 :: real)" and h2: "(3/10 :: real) < 1"
    by simp_all
  have h3: "call_counter (example_agent\<lparr>call_counter := Some 2\<rparr>)
              = call_counter (example_agent\<lparr>call_counter := Some 2, chaos_strategies := []\<rparr>)"
    by simp
  have v: "variate example_lib (42 + (2 + 1)) < 3/10"
    by (simp add: example_lib_def)
  from should_inject_chaos_counter_determined [OF h1 h2 h3, of example_lib 42] v
  show ?thesis
    by auto
qed

section \<open>The selected error class\<close>

lemma select_error_code_counter:
  "select_error_code lib (self\<lparr>call_counter := c\<rparr>) tool seed
     = select_error_code lib self tool seed"
  by (simp add: select_error_code_def Let_def cong: option.case_cong if_cong)

lemma mock_error_response_counter:
  "mock_error_response lib (self\<lparr>call_counter := c\<rparr>) tool code
     = mock_error_response lib self tool code"
  by (simp add: mock_error_response_def)

lemma mock_success_response_counter:
  "mock_success_response (self\<lparr>call_counter := c\<rparr>) tool = mock_success_response self tool"
  by (simp add: mock_success_response_def)

lemma should_inject_chaos_frame:
  "\<exists>c. snd (should_inject_chaos lib self fr seed) = self\<lparr>call_counter := c\<rparr>"
proof (cases "fr \<le> 0 \<or> fr \<ge> 1")
  case True
  then have "snd (should_inject_chaos lib self fr seed)
               = self\<lparr>call_counter := call_counter self\<rparr>"
    by (auto simp: should_inject_chaos_def)
  then show ?thesis by blast
next
  case False
  then show ?thesis
    by (auto simp: should_inject_chaos_def Let_def)
qed

lemma call_outcome:
  assumes "call lib self tool fr (Some seed) = (r, self')"
  shows "(r = Inr (mock_success_response self tool)
          \<or> r = (case select_error_code lib self tool seed of
                   Inl e \<Rightarrow> Inl e
                 | Inr code \<Rightarrow> mock_error_response lib self tool code))
         \<and> (\<exists>c. self' = self\<lparr>call_counter := c\<rparr>)"
proof -
  obtain c where c:
    "snd (should_inject_chaos lib self
            (case fr of None \<Rightarrow> default_failure_rate (config self) | Some f \<Rightarrow> f) seed)
       = self\<lparr>call_counter := c\<rparr>"
    using should_inject_chaos_frame by blast
  show ?thesis
    using assms c
    by (auto simp: call_def Let_def select_error_code_counter mock_error_response_counter
          mock_success_response_counter split: prod.splits sum.splits if_splits)
qed

lemma call_sequence_outcomes:
  "r \<in> set (call_sequence lib self tool fr (Some seed) n) \<Longrightarrow>
     r = Inr (mock_success_response self tool)
     \<or> r = (case select_error_code lib self tool seed of
              Inl e \<Rightarrow> Inl e
            | Inr code \<Rightarrow> mock_error_response lib self tool code)"
proof (induction n arbitrary: self)
  case 0
  then show ?case by simp
next
  case (Suc n)
  obtain r0 self' where step: "call lib self tool fr (Some seed) = (r0, self')"
    by (cases "call lib self tool fr (Some seed)")
  from call_outcome [OF step] obtain c where
    r0: "r0 = Inr (mock_success_response self tool)
          \<or> r0 = (case select_error_code lib self tool seed of
                    Inl e \<Rightarrow> Inl e
                  | Inr code \<Rightarrow> mock_error_response lib self tool code)"
    and self': "self' = self\<lparr>call_counter := c\<rparr>"
    by blast
  from Suc.prems step
  have "r = r0 \<or> r \<in> set (call_sequence lib self' tool fr (Some seed) n)"
    by simp
  then show ?case
  proof
    assume "r = r0"
    with r0 show ?thesis by simp
  next
    assume "r \<in> set (call_sequence lib self' tool fr (Some seed) n)"
    from Suc.IH [OF this] show ?thesis
      by (simp add: self' select_error_code_counter mock_error_response_counter
            mock_success_response_counter cong: sum.case_cong)
  qed
qed

text \<open>
  C10. \<open>select_error_code\<close> seeds a fresh generator with the \<open>seed\<close> it is given and
  reads nothing of the call counter, so for a fixed operation and seed it selects the same
  error class whatever the counter holds; and in a sequence of \<open>call\<close>s on one instance
  with a fixed operation and seed, any two responses that are not the mocked success (the
  injected failures) are the same response, with the same error class.
\<close>

theorem select_error_code_fixed_within_run:
  "select_error_code lib (self\<lparr>call_counter := c\<rparr>) tool seed
     = select_error_code lib self tool seed
   \<and> (\<forall>r1 \<in> set (call_sequence lib self tool fr (Some seed) n).
       \<forall>r2 \<in> set (call_sequence lib self tool fr (Some seed) n).
         r1 \<noteq> Inr (mock_success_response self tool)
         \<longrightarrow> r2 \<noteq> Inr (mock_success_response self tool)
         \<longrightarrow> r1 = r2)"
proof -
  have "select_error_code lib (self\<lparr>call_counter := c\<rparr>) tool seed
          = select_error_code lib self tool seed"
    by (rule select_error_code_counter)
  moreover have
    "\<forall>r1 \<in> set (call_sequence lib self tool fr (Some seed) n).
     \<forall>r2 \<in> set (call_sequence lib self tool fr (Some seed) n).
       r1 \<noteq> Inr (mock_success_response self tool)
       \<longrightarrow> r2 \<noteq> Inr (mock_success_response self tool)
       \<longrightarrow> r1 = r2"
    using call_sequence_outcomes [of _ lib self tool fr seed n] by blast
  ultimately show ?thesis by blast
qed

lemma example_call_sequence:
  "call_sequence example_lib example_agent ''getPetById'' (Some (3/10)) (Some 42) 3
     = [Inr \<lparr>status_code = 404, body = Error_body ''404'' ''error'' ''Pet not found'',
             error = Some ''HTTP 404'', tool_name = ''getPetById'', chaos_injected = True\<rparr>,
        Inr \<lparr>status_code = 200, body = Mock_data, error = None,
             tool_name = ''getPetById'', chaos_injected = False\<rparr>,
        Inr \<lparr>status_code = 404, body = Error_body ''404'' ''error'' ''Pet not found'',
             error = Some ''HTTP 404'', tool_name = ''getPetById'', chaos_injected = True\<rparr>]"
  by (simp add: numeral_3_eq_3 call_def should_inject_chaos_def select_error_code_def
        mock_error_response_def mock_success_response_def example_lib_def example_agent_def
        Let_def)

theorem select_error_code_fixed_within_run_witness:
  "select_error_code example_lib (example_agent\<lparr>call_counter := Some 2\<rparr>) ''getPetById'' 42
     = Inr ''404''
   \<and> call_sequence example_lib example_agent ''getPetById'' (Some (3/10)) (Some 42) 3 ! 0
       \<noteq> Inr (mock_success_response example_agent ''getPetById'')
   \<and> call_sequence example_lib example_agent ''getPetById'' (Some (3/10)) (Some 42) 3 ! 2
       \<noteq> Inr (mock_success_response example_agent ''getPetById'')
   \<and> call_sequence example_lib example_agent ''getPetById'' (Some (3/10)) (Some 42) 3 ! 0
       = call_sequence example_lib example_agent ''getPetById'' (Some (3/10)) (Some 42) 3 ! 2"
proof -
  let ?seq = "call_sequence example_lib example_agent ''getPetById'' (Some (3/10)) (Some 42) 3"
  let ?ok = "Inr (mock_success_response example_agent ''getPetById'') :: py_error + response"
  have len: "length ?seq = 3"
    by (simp add: example_call_sequence)
  have in0: "?seq ! 0 \<in> set ?seq" and in2: "?seq ! 2 \<in> set ?seq"
    using len by simp_all
  have ne0: "?seq ! 0 \<noteq> ?ok" and ne2: "?seq ! 2 \<noteq> ?ok"
    by (simp_all add: example_call_sequence mock_success_response_def)
  have sel: "select_error_code example_lib example_agent ''getPetById'' 42 = Inr ''404''"
    by (simp add: select_error_code_def example_lib_def example_agent_def)
  from select_error_code_fixed_within_run
         [where lib = example_lib and self = example_agent and c = "Some 2"
            and tool = "''getPetById''" and seed = 42 and fr = "Some (3/10)" and n = 3]
  have "select_error_code example_lib (example_agent\<lparr>call_counter := Some 2\<rparr>)
          ''getPetById'' 42
          = select_error_code example_lib example_agent ''getPetById'' 42"
    and "?seq ! 0 = ?seq ! 2"
    using in0 in2 ne0 ne2 by blast+
  with sel ne0 ne2 show ?thesis
    by simp
qed

section \<open>The retry loop of test\_agent\_adk\_v3.py\<close>

lemma tool_decide_retry_action:
  "d_action (tool_decide_retry outcome ec a mr s) = ''retry''
   \<or> d_action (tool_decide_retry outcome ec a mr s) = ''fail''"
  by (cases outcome rule: llm_decision.cases)
     (simp_all add: tool_decide_retry_def decide_retry_tool_def fallback_heuristic_def)

text \<open>
  Where the product is a normal double, \<open>_tool_apply_backoff\<close> returns
  \<open>min(base_delay * 2 ** (attempt - 1), 10)\<close> exactly: scaling a float by a power of two
  does not round there.
\<close>

lemma tool_apply_backoff_exact:
  assumes "1 \<le> attempt" and "attempt \<le> 1024"
    and "1 / 2 ^ 1022 \<le> base_delay * 2 ^ nat (attempt - 1)"
    and "base_delay * 2 ^ nat (attempt - 1) < 2 ^ 1024"
  shows "tool_apply_backoff attempt base_delay
           = Inr (min_ten (Finite (base_delay * 2 ^ nat (attempt - 1))))"
proof -
  let ?p = "base_delay * 2 ^ nat (attempt - 1)"
  have pos: "0 < ?p"
    using assms(3) by (rule less_le_trans [rotated]) simp
  then have "\<not> ?p \<le> - (2 ^ 1024)"
    by (simp add: not_le less_trans [of "- (2 ^ 1024)" 0])
  moreover have "1 / 2 ^ 1022 \<le> \<bar>?p\<bar>"
    using assms(3) pos by simp
  ultimately have "float_scale base_delay (2 ^ nat (attempt - 1)) = Finite ?p"
    using assms(4) unfolding float_scale_def Let_def by (simp add: not_le)
  with assms(1,2) show ?thesis
    by (simp add: tool_apply_backoff_def Let_def)
qed

text \<open>The delays of the loop, which applies the backoff at attempts \<open>1\<close> and \<open>2\<close> only.\<close>

lemma tool_apply_backoff_in_loop:
  assumes "0 \<le> a0" and "a0 + 1 < run_max_retries"
  shows "tool_apply_backoff (a0 + 1) default_base_delay
           = Inr (Float_delay (Finite (default_base_delay * 2 ^ nat a0)))"
proof -
  from assms have "a0 = 0 \<or> a0 = 1"
    by (auto simp: run_max_retries_def)
  then show ?thesis
  proof
    assume a: "a0 = 0"
    have "tool_apply_backoff 1 (1/2) = Inr (min_ten (Finite (1/2 * 2 ^ nat (1 - 1))))"
      by (rule tool_apply_backoff_exact) simp_all
    with a show ?thesis by (simp add: default_base_delay_def)
  next
    assume a: "a0 = 1"
    have "tool_apply_backoff 2 (1/2) = Inr (min_ten (Finite (1/2 * 2 ^ nat (2 - 1))))"
      by (rule tool_apply_backoff_exact) simp_all
    with a show ?thesis by (simp add: default_base_delay_def)
  qed
qed

lemma invocations_append [simp]: "invocations (xs @ ys) = invocations xs @ invocations ys"
  by (induction xs rule: invocations.induct) simp_all

lemma decisions_append [simp]: "decisions (xs @ ys) = decisions xs @ decisions ys"
  by (induction xs rule: decisions.induct) simp_all

lemma sleeps_append [simp]: "sleeps (xs @ ys) = sleeps xs @ sleeps ys"
  by (induction xs rule: sleeps.induct) simp_all

lemma loop_exhausted:
  "\<not> a0 < run_max_retries \<Longrightarrow>
   run_single_test_loop pb call_op re tid opn a0 tr =
     (Inr \<lparr>test_id = tid, operation = opn, ok = False, attempts = a0,
           final_status = None, tr_error = None,
           reason = Some ''max_retries_exceeded'', decision = None\<rparr>, tr)"
  by (subst run_single_test_loop.simps) (simp add: Let_def)

lemma loop_raises:
  "a0 < run_max_retries \<Longrightarrow> call_op (a0 + 1) = Inl msg \<Longrightarrow>
   run_single_test_loop pb call_op re tid opn a0 tr =
     (Inl (Raised msg), tr @ [Invoked (a0 + 1)])"
  by (subst run_single_test_loop.simps) (simp add: Let_def)

lemma loop_success:
  "a0 < run_max_retries \<Longrightarrow> call_op (a0 + 1) = Inr r \<Longrightarrow> result_status r = 200 \<Longrightarrow>
   run_single_test_loop pb call_op re tid opn a0 tr =
     (Inr \<lparr>test_id = tid, operation = opn, ok = True, attempts = a0 + 1,
           final_status = Some 200, tr_error = None, reason = None, decision = None\<rparr>,
      tr @ [Invoked (a0 + 1)])"
  by (subst run_single_test_loop.simps) (simp add: Let_def)

lemma loop_playbook_raises:
  "a0 < run_max_retries \<Longrightarrow> call_op (a0 + 1) = Inr r \<Longrightarrow> result_status r \<noteq> 200 \<Longrightarrow>
   tool_check_playbook pb (result_status r) = Inl e \<Longrightarrow>
   run_single_test_loop pb call_op re tid opn a0 tr = (Inl e, tr @ [Invoked (a0 + 1)])"
  by (subst run_single_test_loop.simps) (simp add: Let_def)

lemma loop_final:
  "a0 < run_max_retries \<Longrightarrow> call_op (a0 + 1) = Inr r \<Longrightarrow> result_status r \<noteq> 200 \<Longrightarrow>
   tool_check_playbook pb (result_status r) = Inr s \<Longrightarrow>
   d = tool_decide_retry (re (a0 + 1)) (result_status r) (a0 + 1) run_max_retries s \<Longrightarrow>
   d_action d \<noteq> ''retry'' \<or> a0 + 1 \<ge> run_max_retries \<Longrightarrow>
   run_single_test_loop pb call_op re tid opn a0 tr =
     (Inr \<lparr>test_id = tid, operation = opn, ok = False, attempts = a0 + 1,
           final_status = Some (result_status r), tr_error = cr_error r,
           reason = Some (d_action d), decision = Some d\<rparr>,
      tr @ [Invoked (a0 + 1), Decided d])"
  by (subst run_single_test_loop.simps) (auto simp: Let_def)

lemma loop_retry:
  "a0 < run_max_retries \<Longrightarrow> call_op (a0 + 1) = Inr r \<Longrightarrow> result_status r \<noteq> 200 \<Longrightarrow>
   tool_check_playbook pb (result_status r) = Inr s \<Longrightarrow>
   d = tool_decide_retry (re (a0 + 1)) (result_status r) (a0 + 1) run_max_retries s \<Longrightarrow>
   d_action d = ''retry'' \<Longrightarrow> a0 + 1 < run_max_retries \<Longrightarrow>
   tool_apply_backoff (a0 + 1) default_base_delay = Inr delay \<Longrightarrow>
   run_single_test_loop pb call_op re tid opn a0 tr =
     run_single_test_loop pb call_op re tid opn (a0 + 1)
       (tr @ [Invoked (a0 + 1), Decided d, Slept delay])"
  by (subst run_single_test_loop.simps) (auto simp: Let_def)

lemma loop_post_step:
  assumes "a0 + 1 < k"
    and "d_action d = ''retry'' \<or> d_action d = ''fail''"
    and "loop_post pb call_op (a0 + 1)
           (tr @ [Invoked (a0 + 1), Decided d,
                  Slept (Float_delay (Finite (default_base_delay * 2 ^ nat a0)))]) k X"
  shows "loop_post pb call_op a0 tr k X"
proof -
  let ?tr = "tr @ [Invoked (a0 + 1), Decided d,
                   Slept (Float_delay (Finite (default_base_delay * 2 ^ nat a0)))]"
  have up1: "[a0 + 1..k] = (a0 + 1) # [a0 + 1 + 1..k]"
    using assms(1) by (simp add: upto_rec1)
  have up2: "[a0 + 1..k - 1] = (a0 + 1) # [a0 + 1 + 1..k - 1]"
    using assms(1) by (simp add: upto_rec1)
  from assms(3) have acts:
    "\<forall>x \<in> set (decisions (snd X)).
       x \<in> set (decisions ?tr) \<or> d_action x = ''retry'' \<or> d_action x = ''fail''"
    by (simp add: loop_post_def)
  have acts': "\<forall>x \<in> set (decisions (snd X)).
       x \<in> set (decisions tr) \<or> d_action x = ''retry'' \<or> d_action x = ''fail''"
  proof
    fix x assume "x \<in> set (decisions (snd X))"
    with acts have "x \<in> set (decisions ?tr) \<or> d_action x = ''retry'' \<or> d_action x = ''fail''"
      by blast
    moreover have "set (decisions ?tr) = insert d (set (decisions tr))"
      by simp
    ultimately show "x \<in> set (decisions tr) \<or> d_action x = ''retry'' \<or> d_action x = ''fail''"
      using assms(2) by auto
  qed
  from assms(3) have rest:
    "invocations (snd X) = invocations tr @ [a0 + 1..k]
     \<and> sleeps (snd X)
         = sleeps tr
           @ map (\<lambda>j. Float_delay (Finite (default_base_delay * 2 ^ nat (j - 1))))
               [a0 + 1..k - 1]
     \<and> (case fst X of
          Inl e \<Rightarrow>
            (\<exists>msg. call_op k = Inl msg \<and> e = Raised msg)
            \<or> (\<exists>r. call_op k = Inr r \<and> result_status r \<noteq> 200
                   \<and> tool_check_playbook pb (result_status r) = Inl e)
        | Inr res \<Rightarrow>
            attempts res = k
            \<and> (\<exists>r. call_op k = Inr r \<and> ok res = (result_status r = 200))
            \<and> (if ok res then
                  decision res = None \<and> reason res = None
                  \<and> int (length (decisions (snd X)))
                      = int (length (decisions tr)) + (k - a0 - 1)
                else
                  decisions (snd X) \<noteq> []
                  \<and> decision res = Some (last (decisions (snd X)))
                  \<and> reason res = Some (d_action (last (decisions (snd X))))
                  \<and> int (length (decisions (snd X)))
                      = int (length (decisions tr)) + (k - a0)))"
    unfolding loop_post_def up1 up2
    by (auto split: sum.splits if_splits)
  with acts' show ?thesis
    unfolding loop_post_def by blast
qed

lemma loop_spec:
  assumes "0 \<le> a0" and "a0 < run_max_retries"
  shows "\<exists>k. a0 < k \<and> k \<le> run_max_retries
           \<and> loop_post pb call_op a0 tr k (run_single_test_loop pb call_op re tid opn a0 tr)"
  using assms
proof (induction "nat (run_max_retries - a0)" arbitrary: a0 tr rule: less_induct)
  case less
  note nn = less.prems(1) and lt = less.prems(2)
  show ?case
  proof (cases "call_op (a0 + 1)")
    case (Inl msg)
    show ?thesis
      by (rule exI [of _ "a0 + 1"]) (use lt Inl in \<open>simp add: loop_raises loop_post_def\<close>)
  next
    case (Inr r)
    show ?thesis
    proof (cases "result_status r = 200")
      case True
      show ?thesis
        by (rule exI [of _ "a0 + 1"]) (use lt Inr True in \<open>simp add: loop_success loop_post_def\<close>)
    next
      case ne: False
      show ?thesis
      proof (cases "tool_check_playbook pb (result_status r)")
        case (Inl e)
        show ?thesis
          by (rule exI [of _ "a0 + 1"])
             (use lt Inr ne Inl in \<open>simp add: loop_playbook_raises loop_post_def\<close>)
      next
        case s: (Inr s)
        define d where
          "d = tool_decide_retry (re (a0 + 1)) (result_status r) (a0 + 1) run_max_retries s"
        show ?thesis
        proof (cases "d_action d \<noteq> ''retry'' \<or> a0 + 1 \<ge> run_max_retries")
          case True
          have fin: "run_single_test_loop pb call_op re tid opn a0 tr =
                 (Inr \<lparr>test_id = tid, operation = opn, ok = False, attempts = a0 + 1,
                       final_status = Some (result_status r), tr_error = cr_error r,
                       reason = Some (d_action d), decision = Some d\<rparr>,
                  tr @ [Invoked (a0 + 1), Decided d])"
            by (rule loop_final) (use lt Inr ne s d_def True in auto)
          show ?thesis
            by (rule exI [of _ "a0 + 1"])
               (use lt Inr ne tool_decide_retry_action [of "re (a0 + 1)" "result_status r"
                      "a0 + 1" run_max_retries s]
                 in \<open>auto simp add: fin loop_post_def d_def\<close>)
        next
          case False
          then have retry: "d_action d = ''retry''" and more: "a0 + 1 < run_max_retries"
            by auto
          let ?tr = "tr @ [Invoked (a0 + 1), Decided d,
              Slept (Float_delay (Finite (default_base_delay * 2 ^ nat a0)))]"
          have eq: "run_single_test_loop pb call_op re tid opn a0 tr
                      = run_single_test_loop pb call_op re tid opn (a0 + 1) ?tr"
            by (rule loop_retry)
               (use lt Inr ne s d_def retry more tool_apply_backoff_in_loop [OF nn more]
                 in auto)
          have "nat (run_max_retries - (a0 + 1)) < nat (run_max_retries - a0)"
            using lt by simp
          moreover from nn have "0 \<le> a0 + 1" by simp
          ultimately have "\<exists>k. a0 + 1 < k \<and> k \<le> run_max_retries
              \<and> loop_post pb call_op (a0 + 1) ?tr k
                    (run_single_test_loop pb call_op re tid opn (a0 + 1) ?tr)"
            using more by (rule less.hyps)
          then
          obtain k where k: "a0 + 1 < k" "k \<le> run_max_retries"
            and post: "loop_post pb call_op (a0 + 1) ?tr k
                         (run_single_test_loop pb call_op re tid opn (a0 + 1) ?tr)"
            by blast
          have act: "d_action d = ''retry'' \<or> d_action d = ''fail''"
            unfolding d_def by (rule tool_decide_retry_action)
          from loop_post_step [OF k(1) act post] k show ?thesis
            by (intro exI [of _ k]) (simp add: eq)
        qed
      qed
    qed
  qed
qed

section \<open>The retry loop of test\_agent\_adk\_v3\_v2.py\<close>

lemma loop2_raises:
  "a0 < run_max_retries \<Longrightarrow> call_op (a0 + 1) = Inl msg \<Longrightarrow>
   run_single_test_loop_v3_v2 pb call_op re tid opn a0 tr =
     (Inl (Raised msg), tr @ [Invoked (a0 + 1)])"
  by (subst run_single_test_loop_v3_v2.simps) (simp add: Let_def)

lemma loop2_success:
  "a0 < run_max_retries \<Longrightarrow> call_op (a0 + 1) = Inr r \<Longrightarrow> result_status r = 200 \<Longrightarrow>
   run_single_test_loop_v3_v2 pb call_op re tid opn a0 tr =
     (Inr \<lparr>test_id = tid, operation = opn, ok = True, attempts = a0 + 1,
           final_status = Some 200, tr_error = None, reason = None, decision = None\<rparr>,
      tr @ [Invoked (a0 + 1)])"
  by (subst run_single_test_loop_v3_v2.simps) (simp add: Let_def)

lemma loop2_playbook_raises:
  "a0 < run_max_retries \<Longrightarrow> call_op (a0 + 1) = Inr r \<Longrightarrow> result_status r \<noteq> 200 \<Longrightarrow>
   tool_check_playbook pb (result_status r) = Inl e \<Longrightarrow>
   run_single_test_loop_v3_v2 pb call_op re tid opn a0 tr = (Inl e, tr @ [Invoked (a0 + 1)])"
  by (subst run_single_test_loop_v3_v2.simps) (simp add: Let_def)

lemma loop2_playbook_refuses:
  "a0 < run_max_retries \<Longrightarrow> call_op (a0 + 1) = Inr r \<Longrightarrow> result_status r \<noteq> 200 \<Longrightarrow>
   tool_check_playbook pb (result_status r) = Inr s \<Longrightarrow>
   s_action s \<noteq> Some ''retry'' \<or> a0 + 1 \<ge> run_max_retries \<Longrightarrow>
   run_single_test_loop_v3_v2 pb call_op re tid opn a0 tr =
     (Inr \<lparr>test_id = tid, operation = opn, ok = False, attempts = a0 + 1,
           final_status = Some (result_status r), tr_error = cr_error r,
           reason = s_action s, decision = None\<rparr>,
      tr @ [Invoked (a0 + 1)])"
  by (subst run_single_test_loop_v3_v2.simps) (auto simp: Let_def)

lemma loop2_decision_refuses:
  "a0 < run_max_retries \<Longrightarrow> call_op (a0 + 1) = Inr r \<Longrightarrow> result_status r \<noteq> 200 \<Longrightarrow>
   tool_check_playbook pb (result_status r) = Inr s \<Longrightarrow>
   s_action s = Some ''retry'' \<Longrightarrow> a0 + 1 < run_max_retries \<Longrightarrow>
   d = tool_decide_retry_v3_v2 (re (a0 + 1)) (result_status r) (a0 + 1) run_max_retries s \<Longrightarrow>
   d_action d \<noteq> ''retry'' \<Longrightarrow>
   run_single_test_loop_v3_v2 pb call_op re tid opn a0 tr =
     (Inr \<lparr>test_id = tid, operation = opn, ok = False, attempts = a0 + 1,
           final_status = Some (result_status r), tr_error = cr_error r,
           reason = None, decision = Some d\<rparr>,
      tr @ [Invoked (a0 + 1), Decided d])"
  by (subst run_single_test_loop_v3_v2.simps) (auto simp: Let_def)

lemma loop2_retry:
  "a0 < run_max_retries \<Longrightarrow> call_op (a0 + 1) = Inr r \<Longrightarrow> result_status r \<noteq> 200 \<Longrightarrow>
   tool_check_playbook pb (result_status r) = Inr s \<Longrightarrow>
   s_action s = Some ''retry'' \<Longrightarrow> a0 + 1 < run_max_retries \<Longrightarrow>
   d = tool_decide_retry_v3_v2 (re (a0 + 1)) (result_status r) (a0 + 1) run_max_retries s \<Longrightarrow>
   d_action d = ''retry'' \<Longrightarrow>
   tool_apply_backoff (a0 + 1) default_base_delay = Inr delay \<Longrightarrow>
   run_single_test_loop_v3_v2 pb call_op re tid opn a0 tr =
     run_single_test_loop_v3_v2 pb call_op re tid opn (a0 + 1)
       (tr @ [Invoked (a0 + 1), Decided d, Slept delay])"
  by (subst run_single_test_loop_v3_v2.simps) (auto simp: Let_def)

lemma loop_post_v3_v2_step:
  assumes "a0 + 1 < k"
    and "loop_post_v3_v2 pb call_op (a0 + 1)
           (tr @ [Invoked (a0 + 1), Decided d, Slept delay]) k X"
  shows "loop_post_v3_v2 pb call_op a0 tr k X"
proof -
  have up1: "[a0 + 1..k] = (a0 + 1) # [a0 + 1 + 1..k]"
    using assms(1) by (simp add: upto_rec1)
  show ?thesis
    using assms(2) unfolding loop_post_v3_v2_def up1
    by (auto split: sum.splits)
qed

lemma loop_v3_v2_spec:
  assumes "0 \<le> a0" and "a0 < run_max_retries"
  shows "\<exists>k. a0 < k \<and> k \<le> run_max_retries
           \<and> loop_post_v3_v2 pb call_op a0 tr k
                (run_single_test_loop_v3_v2 pb call_op re tid opn a0 tr)"
  using assms
proof (induction "nat (run_max_retries - a0)" arbitrary: a0 tr rule: less_induct)
  case less
  note nn = less.prems(1) and lt = less.prems(2)
  show ?case
  proof (cases "call_op (a0 + 1)")
    case (Inl msg)
    show ?thesis
      by (rule exI [of _ "a0 + 1"])
         (use lt Inl in \<open>simp add: loop2_raises loop_post_v3_v2_def\<close>)
  next
    case (Inr r)
    show ?thesis
    proof (cases "result_status r = 200")
      case True
      show ?thesis
        by (rule exI [of _ "a0 + 1"])
           (use lt Inr True in \<open>simp add: loop2_success loop_post_v3_v2_def\<close>)
    next
      case ne: False
      show ?thesis
      proof (cases "tool_check_playbook pb (result_status r)")
        case (Inl e)
        show ?thesis
          by (rule exI [of _ "a0 + 1"])
             (use lt Inr ne Inl in \<open>simp add: loop2_playbook_raises loop_post_v3_v2_def\<close>)
      next
        case s: (Inr s)
        show ?thesis
        proof (cases "s_action s \<noteq> Some ''retry'' \<or> a0 + 1 \<ge> run_max_retries")
          case True
          have fin: "run_single_test_loop_v3_v2 pb call_op re tid opn a0 tr =
                 (Inr \<lparr>test_id = tid, operation = opn, ok = False, attempts = a0 + 1,
                       final_status = Some (result_status r), tr_error = cr_error r,
                       reason = s_action s, decision = None\<rparr>,
                  tr @ [Invoked (a0 + 1)])"
            by (rule loop2_playbook_refuses) (use lt Inr ne s True in auto)
          show ?thesis
            by (rule exI [of _ "a0 + 1"])
               (use lt Inr ne in \<open>simp add: fin loop_post_v3_v2_def\<close>)
        next
          case False
          then have act: "s_action s = Some ''retry''" and more: "a0 + 1 < run_max_retries"
            by auto
          define d where
            "d = tool_decide_retry_v3_v2 (re (a0 + 1)) (result_status r) (a0 + 1)
                   run_max_retries s"
          show ?thesis
          proof (cases "d_action d = ''retry''")
            case False
            have fin: "run_single_test_loop_v3_v2 pb call_op re tid opn a0 tr =
                 (Inr \<lparr>test_id = tid, operation = opn, ok = False, attempts = a0 + 1,
                       final_status = Some (result_status r), tr_error = cr_error r,
                       reason = None, decision = Some d\<rparr>,
                  tr @ [Invoked (a0 + 1), Decided d])"
              by (rule loop2_decision_refuses) (use lt Inr ne s act more d_def False in auto)
            show ?thesis
              by (rule exI [of _ "a0 + 1"])
                 (use lt Inr ne in \<open>simp add: fin loop_post_v3_v2_def\<close>)
          next
            case True
            let ?tr = "tr @ [Invoked (a0 + 1), Decided d,
                Slept (Float_delay (Finite (default_base_delay * 2 ^ nat a0)))]"
            have eq: "run_single_test_loop_v3_v2 pb call_op re tid opn a0 tr
                        = run_single_test_loop_v3_v2 pb call_op re tid opn (a0 + 1) ?tr"
              by (rule loop2_retry)
                 (use lt Inr ne s act more d_def True tool_apply_backoff_in_loop [OF nn more]
                   in auto)
            have "nat (run_max_retries - (a0 + 1)) < nat (run_max_retries - a0)"
              using lt by simp
            moreover from nn have "0 \<le> a0 + 1" by simp
            ultimately have "\<exists>k. a0 + 1 < k \<and> k \<le> run_max_retries
                \<and> loop_post_v3_v2 pb call_op (a0 + 1) ?tr k
                      (run_single_test_loop_v3_v2 pb call_op re tid opn (a0 + 1) ?tr)"
              using more by (rule less.hyps)
            then
            obtain k where k: "a0 + 1 < k" "k \<le> run_max_retries"
              and post: "loop_post_v3_v2 pb call_op (a0 + 1) ?tr k
                           (run_single_test_loop_v3_v2 pb call_op re tid opn (a0 + 1) ?tr)"
              by blast
            from loop_post_v3_v2_step [OF k(1) post] k show ?thesis
              by (intro exI [of _ k]) (simp add: eq)
          qed
        qed
      qed
    qed
  qed
qed

lemma check_procedures_total:
  "\<forall>p \<in> set ps. recovery_strategy p \<noteq> None \<Longrightarrow> \<exists>s. check_procedures ps code key = Inr s"
  by (induction ps) auto

lemma tool_check_playbook_total:
  "\<forall>p \<in> set pb. recovery_strategy p \<noteq> None \<Longrightarrow> \<exists>s. tool_check_playbook pb code = Inr s"
  by (simp add: tool_check_playbook_def check_procedures_total)

lemma always_failing_status:
  assumes "\<forall>a. \<exists>r. call_op a = Inr r \<and> result_status r \<noteq> 200"
    and "call_op k = Inr r"
  shows "result_status r \<noteq> 200"
proof -
  from assms(1) obtain r' where "call_op k = Inr r'" and "result_status r' \<noteq> 200"
    by blast
  with assms(2) show ?thesis by simp
qed

section \<open>The retry bound\<close>

text \<open>
  C3. When the operation returns a status other than \<open>200\<close> at every attempt,
  \<open>_run_single_test\<close> (in test\_agent\_adk\_v3.py and, as its text reads, in
  test\_agent\_adk\_v3\_v2.py) invokes the operation at most \<open>max_retries = 3\<close> times, and the
  result it returns is a failure whose \<open>attempts\<close> lies between \<open>1\<close> and \<open>max_retries\<close>.
  A result is returned whenever the playbook lookup cannot raise, that is, when every
  procedure carries a \<open>recovery_strategy\<close>.
\<close>

theorem run_single_test_retry_bound:
  assumes "\<forall>a. \<exists>r. call_op a = Inr r \<and> result_status r \<noteq> 200"
  shows "run_max_retries = 3
    \<and> length (invocations (snd (run_single_test playbook call_op reasoner tid opn))) \<le> 3
    \<and> (\<forall>res. fst (run_single_test playbook call_op reasoner tid opn) = Inr res \<longrightarrow>
          \<not> ok res \<and> 1 \<le> attempts res \<and> attempts res \<le> run_max_retries)
    \<and> ((\<forall>p \<in> set playbook. recovery_strategy p \<noteq> None) \<longrightarrow>
          (\<exists>res. fst (run_single_test playbook call_op reasoner tid opn) = Inr res))
    \<and> length (invocations (snd (run_single_test_v3_v2 playbook call_op reasoner tid opn))) \<le> 3
    \<and> (\<forall>res. fst (run_single_test_v3_v2 playbook call_op reasoner tid opn) = Inr res \<longrightarrow>
          \<not> ok res \<and> 1 \<le> attempts res \<and> attempts res \<le> run_max_retries)
    \<and> ((\<forall>p \<in> set playbook. recovery_strategy p \<noteq> None) \<longrightarrow>
          (\<exists>res. fst (run_single_test_v3_v2 playbook call_op reasoner tid opn) = Inr res))"
proof -
  have m: "run_max_retries = 3" by (simp add: run_max_retries_def)
  have lt: "0 < run_max_retries" by (simp add: m)
  let ?X = "run_single_test playbook call_op reasoner tid opn"
  let ?Y = "run_single_test_v3_v2 playbook call_op reasoner tid opn"
  from loop_spec [OF order_refl lt, of playbook call_op "[]" reasoner tid opn]
  obtain k where k: "0 < k" "k \<le> 3" and post: "loop_post playbook call_op 0 [] k ?X"
    by (auto simp: run_single_test_def m)
  from loop_v3_v2_spec [OF order_refl lt, of playbook call_op "[]" reasoner tid opn]
  obtain j where j: "0 < j" "j \<le> 3" and post2: "loop_post_v3_v2 playbook call_op 0 [] j ?Y"
    by (auto simp: run_single_test_v3_v2_def m)
  have inv: "length (invocations (snd ?X)) \<le> 3"
    using post k by (simp add: loop_post_def)
  have inv2: "length (invocations (snd ?Y)) \<le> 3"
    using post2 j by (simp add: loop_post_v3_v2_def)
  have res: "\<forall>res. fst ?X = Inr res \<longrightarrow> \<not> ok res \<and> 1 \<le> attempts res \<and> attempts res \<le> run_max_retries"
    using post k always_failing_status [OF assms] by (auto simp: loop_post_def m)
  have res2: "\<forall>res. fst ?Y = Inr res \<longrightarrow> \<not> ok res \<and> 1 \<le> attempts res \<and> attempts res \<le> run_max_retries"
    using post2 j always_failing_status [OF assms] by (auto simp: loop_post_v3_v2_def m)
  have ex: "\<exists>res. fst ?X = Inr res" if wf: "\<forall>p \<in> set playbook. recovery_strategy p \<noteq> None"
  proof (cases "fst ?X")
    case (Inl e)
    with post have "(\<exists>msg. call_op k = Inl msg)
        \<or> (\<exists>r. tool_check_playbook playbook (result_status r) = Inl e)"
      by (auto simp: loop_post_def)
    with assms tool_check_playbook_total [OF wf] show ?thesis
      by (metis sum.distinct(1))
  next
    case (Inr res)
    then show ?thesis by blast
  qed
  have ex2: "\<exists>res. fst ?Y = Inr res" if wf: "\<forall>p \<in> set playbook. recovery_strategy p \<noteq> None"
  proof (cases "fst ?Y")
    case (Inl e)
    with post2 have "(\<exists>msg. call_op j = Inl msg)
        \<or> (\<exists>r. tool_check_playbook playbook (result_status r) = Inl e)"
      by (auto simp: loop_post_v3_v2_def)
    with assms tool_check_playbook_total [OF wf] show ?thesis
      by (metis sum.distinct(1))
  next
    case (Inr res)
    then show ?thesis by blast
  qed
  from m inv res ex inv2 res2 ex2 show ?thesis
    by blast
qed

theorem run_single_test_retry_bound_witness:
  "(\<forall>a. \<exists>r. always_503 a = Inr r \<and> result_status r \<noteq> 200)
   \<and> length (invocations (snd (run_single_test example_playbook always_503 always_retry
                                   ''t1'' ''getPetById''))) \<le> 3
   \<and> (\<exists>res. fst (run_single_test example_playbook always_503 always_retry ''t1'' ''getPetById'')
               = Inr res \<and> \<not> ok res \<and> 1 \<le> attempts res \<and> attempts res \<le> 3)
   \<and> (\<exists>res. fst (run_single_test_v3_v2 example_playbook always_503 always_retry ''t1''
                     ''getPetById'')
               = Inr res \<and> \<not> ok res \<and> 1 \<le> attempts res \<and> attempts res \<le> 3)"
proof -
  have h: "\<forall>a. \<exists>r. always_503 a = Inr r \<and> result_status r \<noteq> 200"
    by (simp add: always_503_def result_status_def)
  have wf: "\<forall>p \<in> set example_playbook. recovery_strategy p \<noteq> None"
    by (simp add: example_playbook_def)
  from run_single_test_retry_bound
         [OF h, of example_playbook always_retry "''t1''" "''getPetById''"] wf h
  show ?thesis
    by (simp add: run_max_retries_def) blast
qed

section \<open>The reason a run ends with\<close>

lemma str_int_503: "str_int 503 = ''503''"
  by (simp add: str_int_def digit_char_def)

lemma tool_apply_backoff_1:
  "tool_apply_backoff 1 default_base_delay = Inr (Float_delay (Finite (1/2)))"
  using tool_apply_backoff_in_loop [of 0] by (simp add: run_max_retries_def default_base_delay_def)

lemma tool_apply_backoff_2:
  "tool_apply_backoff 2 default_base_delay = Inr (Float_delay (Finite 1))"
  using tool_apply_backoff_in_loop [of 1] by (simp add: run_max_retries_def default_base_delay_def)

lemma run_single_test_reason_is_action:
  assumes "fst (run_single_test playbook call_op reasoner tid opn) = Inr res"
  shows "reason res = None \<or> reason res = Some ''retry'' \<or> reason res = Some ''fail''"
proof -
  let ?X = "run_single_test playbook call_op reasoner tid opn"
  have lt: "0 < run_max_retries" by (simp add: run_max_retries_def)
  from loop_spec [OF order_refl lt, of playbook call_op "[]" reasoner tid opn]
  obtain k where post: "loop_post playbook call_op 0 [] k ?X"
    by (auto simp: run_single_test_def)
  show ?thesis
  proof (cases "ok res")
    case True
    with post assms show ?thesis by (simp add: loop_post_def)
  next
    case False
    with post assms have ne: "decisions (snd ?X) \<noteq> []"
      and r: "reason res = Some (d_action (last (decisions (snd ?X))))"
      by (simp_all add: loop_post_def)
    from ne have "last (decisions (snd ?X)) \<in> set (decisions (snd ?X))"
      by simp
    moreover from post have
      "\<forall>d \<in> set (decisions (snd ?X)). d_action d = ''retry'' \<or> d_action d = ''fail''"
      by (simp add: loop_post_def)
    ultimately show ?thesis
      using r by auto
  qed
qed

text \<open>
  C4, evaluated. With the playbook that maps \<open>503\<close> to \<open>retry\<close>, an operation that
  returns \<open>503\<close> at every attempt and a reasoner that answers "retry" every time,
  \<open>_run_single_test\<close> of test\_agent\_adk\_v3.py returns \<open>ok = False\<close> and \<open>attempts = 3\<close>,
  and the reason it records is \<open>'retry'\<close>, the action of the third decision: the return
  inside the loop is taken at \<open>attempt >= max_retries\<close>, and the return after the loop,
  the only one that says \<open>'max_retries_exceeded'\<close>, is not reached.
\<close>

theorem run_single_test_always_503:
  "fst (run_single_test example_playbook always_503 always_retry ''t1'' ''getPetById'')
     = Inr \<lparr>test_id = ''t1'', operation = ''getPetById'', ok = False, attempts = 3,
            final_status = Some 503, tr_error = Some ''HTTP 503'', reason = Some ''retry'',
            decision = Some \<lparr>d_action = ''retry'', d_reason = JStr ''transient'',
                              d_confidence = JFloat (9/10), d_error_type = JStr ''transient'',
                              d_llm_reasoning = Some answer_retry, d_llm_called = True\<rparr>\<rparr>"
  by (simp add: run_single_test_def run_single_test_loop.simps run_max_retries_def
        always_503_def always_retry_def answer_retry_def example_playbook_def result_status_def
        tool_check_playbook_def str_int_503 tool_decide_retry_def decide_retry_tool_def
        dict_get_def Let_def tool_apply_backoff_1 tool_apply_backoff_2)

section \<open>The decisions a result holds\<close>

lemma run_test_decision:
  "run_test depth pb f re spec a tr = (Inr res, tr') \<Longrightarrow>
     (r2_ok res \<longrightarrow> r2_decision res = success_decision
        \<and> int (length (decisions tr')) = int (length (decisions tr)) + (r2_attempts res - a))
   \<and> (\<not> r2_ok res \<longrightarrow> decisions tr' \<noteq> [] \<and> r2_decision res = last (decisions tr')
        \<and> int (length (decisions tr')) = int (length (decisions tr)) + (r2_attempts res - a) + 1)"
proof (induction depth arbitrary: a tr)
  case 0
  then show ?case by simp
next
  case (Suc depth)
  from Suc.prems show ?case
    by (auto simp: Let_def split: option.splits if_splits sum.splits dest!: Suc.IH)
qed

lemma example_run_retry_once:
  "fst (run_single_test example_playbook always_503 retry_once ''t1'' ''getPetById'')
     = Inr \<lparr>test_id = ''t1'', operation = ''getPetById'', ok = False, attempts = 2,
            final_status = Some 503, tr_error = Some ''HTTP 503'', reason = Some ''fail'',
            decision = Some \<lparr>d_action = ''fail'', d_reason = JStr ''give up'',
                              d_confidence = JFloat (8/10), d_error_type = JStr ''permanent'',
                              d_llm_reasoning = Some answer_stop, d_llm_called = True\<rparr>\<rparr>
   \<and> decisions (snd (run_single_test example_playbook always_503 retry_once ''t1''
                        ''getPetById''))
     = [\<lparr>d_action = ''retry'', d_reason = JStr ''transient'',
         d_confidence = JFloat (9/10), d_error_type = JStr ''transient'',
         d_llm_reasoning = Some answer_retry, d_llm_called = True\<rparr>,
        \<lparr>d_action = ''fail'', d_reason = JStr ''give up'',
         d_confidence = JFloat (8/10), d_error_type = JStr ''permanent'',
         d_llm_reasoning = Some answer_stop, d_llm_called = True\<rparr>]"
  by (simp add: run_single_test_def run_single_test_loop.simps run_max_retries_def
        always_503_def retry_once_def answer_retry_def answer_stop_def example_playbook_def
        result_status_def tool_check_playbook_def str_int_503 tool_decide_retry_def
        decide_retry_tool_def dict_get_def Let_def tool_apply_backoff_1 tool_apply_backoff_2)

text \<open>
  The result of a test has one field for a decision and none for a trail. With the
  reasoner that answers "retry" at the first attempt and "do not retry" at the second,
  \<open>_run_single_test\<close> makes two decisions and returns the second one only.
\<close>

theorem run_single_test_drops_first_decision:
  "fst (run_single_test example_playbook always_503 retry_once ''t1'' ''getPetById'')
     = Inr \<lparr>test_id = ''t1'', operation = ''getPetById'', ok = False, attempts = 2,
            final_status = Some 503, tr_error = Some ''HTTP 503'', reason = Some ''fail'',
            decision = Some \<lparr>d_action = ''fail'', d_reason = JStr ''give up'',
                              d_confidence = JFloat (8/10), d_error_type = JStr ''permanent'',
                              d_llm_reasoning = Some answer_stop, d_llm_called = True\<rparr>\<rparr>
   \<and> decisions (snd (run_single_test example_playbook always_503 retry_once ''t1''
                        ''getPetById''))
     = [\<lparr>d_action = ''retry'', d_reason = JStr ''transient'',
         d_confidence = JFloat (9/10), d_error_type = JStr ''transient'',
         d_llm_reasoning = Some answer_retry, d_llm_called = True\<rparr>,
        \<lparr>d_action = ''fail'', d_reason = JStr ''give up'',
         d_confidence = JFloat (8/10), d_error_type = JStr ''permanent'',
         d_llm_reasoning = Some answer_stop, d_llm_called = True\<rparr>]"
  by (rule example_run_retry_once)

text \<open>
  C9, as the code has it. A completed test returns at most one decision. In
  test\_agent\_adk\_v3.py a successful result holds no decision, although \<open>attempts - 1\<close>
  were made, and a failed result holds the last of the \<open>attempts\<close> decisions made. In
  \<open>run_test\<close> of test\_agent\_adk\_v2.py a successful result holds the constant
  \<open>{'action': 'success'}\<close> and a failed result the last decision made.
\<close>

theorem result_holds_last_decision_only:
  "(\<forall>res. fst (run_single_test playbook call_op reasoner tid opn) = Inr res \<longrightarrow>
      (ok res \<longrightarrow>
         decision res = None
         \<and> int (length (decisions (snd (run_single_test playbook call_op reasoner tid opn))))
             = attempts res - 1)
      \<and> (\<not> ok res \<longrightarrow>
         decisions (snd (run_single_test playbook call_op reasoner tid opn)) \<noteq> []
         \<and> decision res
             = Some (last (decisions (snd (run_single_test playbook call_op reasoner tid opn))))
         \<and> int (length (decisions (snd (run_single_test playbook call_op reasoner tid opn))))
             = attempts res))
   \<and> (\<forall>res2. fst (run_test depth playbook2 chaos_agent_func reasoner spec 1 []) = Inr res2 \<longrightarrow>
      (r2_ok res2 \<longrightarrow>
         r2_decision res2 = success_decision
         \<and> int (length (decisions
                (snd (run_test depth playbook2 chaos_agent_func reasoner spec 1 []))))
             = r2_attempts res2 - 1)
      \<and> (\<not> r2_ok res2 \<longrightarrow>
         decisions (snd (run_test depth playbook2 chaos_agent_func reasoner spec 1 [])) \<noteq> []
         \<and> r2_decision res2
             = last (decisions (snd (run_test depth playbook2 chaos_agent_func reasoner spec 1 [])))
         \<and> int (length (decisions
                (snd (run_test depth playbook2 chaos_agent_func reasoner spec 1 []))))
             = r2_attempts res2))"
proof -
  let ?X = "run_single_test playbook call_op reasoner tid opn"
  let ?Y = "run_test depth playbook2 chaos_agent_func reasoner spec 1 []"
  have lt: "0 < run_max_retries" by (simp add: run_max_retries_def)
  from loop_spec [OF order_refl lt, of playbook call_op "[]" reasoner tid opn]
  obtain k where post: "loop_post playbook call_op 0 [] k ?X"
    by (auto simp: run_single_test_def)
  have v3: "\<forall>res. fst ?X = Inr res \<longrightarrow>
      (ok res \<longrightarrow> decision res = None \<and> int (length (decisions (snd ?X))) = attempts res - 1)
      \<and> (\<not> ok res \<longrightarrow> decisions (snd ?X) \<noteq> []
            \<and> decision res = Some (last (decisions (snd ?X)))
            \<and> int (length (decisions (snd ?X))) = attempts res)"
    using post by (auto simp: loop_post_def)
  have v2: "\<forall>res2. fst ?Y = Inr res2 \<longrightarrow>
      (r2_ok res2 \<longrightarrow> r2_decision res2 = success_decision
            \<and> int (length (decisions (snd ?Y))) = r2_attempts res2 - 1)
      \<and> (\<not> r2_ok res2 \<longrightarrow> decisions (snd ?Y) \<noteq> []
            \<and> r2_decision res2 = last (decisions (snd ?Y))
            \<and> int (length (decisions (snd ?Y))) = r2_attempts res2)"
  proof (intro allI impI)
    fix res2 assume "fst ?Y = Inr res2"
    then have "?Y = (Inr res2, snd ?Y)"
      by (metis prod.collapse)
    from run_test_decision [OF this] show
      "(r2_ok res2 \<longrightarrow> r2_decision res2 = success_decision
            \<and> int (length (decisions (snd ?Y))) = r2_attempts res2 - 1)
      \<and> (\<not> r2_ok res2 \<longrightarrow> decisions (snd ?Y) \<noteq> []
            \<and> r2_decision res2 = last (decisions (snd ?Y))
            \<and> int (length (decisions (snd ?Y))) = r2_attempts res2)"
      by simp
  qed
  from v3 v2 show ?thesis by blast
qed

lemma example_run_test:
  "run_test 3 example_playbook_v2 (Some always_503) retry_once example_spec 1 []
     = (Inr \<lparr>r2_test_id = ''t1'', r2_operation = ''getPetById'', r2_status_code = 503,
             r2_ok = False, r2_chaos_injected = True, r2_error = Some ''HTTP 503'',
             r2_attempts = 2,
             r2_decision =
               \<lparr>d2_action = ''fail'', d2_reason = Some (JStr ''give up''),
                d2_confidence = Some (JFloat (8/10)),
                d2_error_type = Some (JStr ''permanent''), d2_attempt = Some 2,
                d2_max_retries = Some 3, d2_llm_reasoning = Some answer_stop,
                d2_llm_called = Some True, d2_fallback = None\<rparr>,
             r2_playbook_used = True, r2_llm_used = True\<rparr>,
        [Invoked 1,
         Decided \<lparr>d2_action = ''retry'', d2_reason = Some (JStr ''transient''),
                  d2_confidence = Some (JFloat (9/10)),
                  d2_error_type = Some (JStr ''transient''), d2_attempt = Some 1,
                  d2_max_retries = Some 3, d2_llm_reasoning = Some answer_retry,
                  d2_llm_called = Some True, d2_fallback = None\<rparr>,
         Slept (Int_delay 1), Invoked 2,
         Decided \<lparr>d2_action = ''fail'', d2_reason = Some (JStr ''give up''),
                  d2_confidence = Some (JFloat (8/10)),
                  d2_error_type = Some (JStr ''permanent''), d2_attempt = Some 2,
                  d2_max_retries = Some 3, d2_llm_reasoning = Some answer_stop,
                  d2_llm_called = Some True, d2_fallback = None\<rparr>])"
  by (simp add: numeral_3_eq_3 example_playbook_v2_def always_503_def retry_once_def
        example_spec_def answer_retry_def answer_stop_def tool_call_operation_v2_def
        str_int_503 or_default_def tool_decide_retry_v2_def dict_get_def run_test_backoff_def
        Let_def)

theorem result_holds_last_decision_only_witness:
  "decision (projr (fst (run_single_test example_playbook always_503 retry_once ''t1''
                           ''getPetById'')))
     = Some (last (decisions (snd (run_single_test example_playbook always_503 retry_once
                                    ''t1'' ''getPetById''))))
   \<and> length (decisions (snd (run_single_test example_playbook always_503 retry_once ''t1''
                                 ''getPetById''))) = 2
   \<and> r2_decision (projr (fst (run_test 3 example_playbook_v2 (Some always_503) retry_once
                                 example_spec 1 [])))
     = last (decisions (snd (run_test 3 example_playbook_v2 (Some always_503) retry_once
                               example_spec 1 [])))
   \<and> length (decisions (snd (run_test 3 example_playbook_v2 (Some always_503) retry_once
                                 example_spec 1 []))) = 2"
proof -
  let ?X = "run_single_test example_playbook always_503 retry_once ''t1'' ''getPetById''"
  let ?Y = "run_test 3 example_playbook_v2 (Some always_503) retry_once example_spec 1 []"
  obtain res where res: "fst ?X = Inr res" and nok: "\<not> ok res" and att: "attempts res = 2"
    using example_run_retry_once by simp
  obtain res2 where res2: "fst ?Y = Inr res2" and nok2: "\<not> r2_ok res2"
    and att2: "r2_attempts res2 = 2"
    by (simp add: example_run_test)
  from result_holds_last_decision_only
         [of example_playbook always_503 retry_once "''t1''" "''getPetById''"
             3 example_playbook_v2 "Some always_503" example_spec]
    res nok att res2 nok2 att2
  show ?thesis
    by auto
qed

section \<open>The backoff delay\<close>

text \<open>
  \<open>_tool_apply_backoff\<close> of test\_agent\_adk\_v3.py. For a base delay that is a positive
  normal double and an attempt from \<open>1\<close> to \<open>1024\<close> whose product is in the range of a
  double, the delay is \<open>min(base_delay * 2 ** (attempt - 1), 10)\<close>. From attempt \<open>1025\<close> on
  the call raises \<open>OverflowError\<close>. The loop of \<open>_run_single_test\<close> applies the backoff at
  the attempts \<open>1\<close> and \<open>2\<close> at most, with the default base: it sleeps \<open>0.5\<close>, then \<open>1.0\<close>.
\<close>

lemma tool_apply_backoff_seconds:
  assumes "1 \<le> attempt" and "attempt \<le> 1024"
    and "1 / 2 ^ 1022 \<le> base_delay * 2 ^ nat (attempt - 1)"
    and "base_delay * 2 ^ nat (attempt - 1) < 2 ^ 1024"
  shows "\<exists>delay. tool_apply_backoff attempt base_delay = Inr delay
           \<and> delay_seconds delay = Some (min (base_delay * 2 ^ nat (attempt - 1)) 10)"
  using tool_apply_backoff_exact [OF assms] by (simp add: min_def)

lemma tool_apply_backoff_overflow:
  "1025 \<le> attempt \<Longrightarrow> tool_apply_backoff attempt base_delay = Inl OverflowError"
  by (simp add: tool_apply_backoff_def Let_def)

lemma run_single_test_sleeps:
  "\<exists>n. 0 \<le> n \<and> n \<le> 2
       \<and> sleeps (snd (run_single_test playbook call_op reasoner tid opn))
           = map (\<lambda>j. Float_delay (Finite (default_base_delay * 2 ^ nat (j - 1)))) [1..n]"
proof -
  have lt: "0 < run_max_retries" by (simp add: run_max_retries_def)
  from loop_spec [OF order_refl lt, of playbook call_op "[]" reasoner tid opn]
  obtain k where k: "0 < k" "k \<le> 3"
    and post: "loop_post playbook call_op 0 [] k
                 (run_single_test playbook call_op reasoner tid opn)"
    by (auto simp: run_single_test_def run_max_retries_def)
  from post have "sleeps (snd (run_single_test playbook call_op reasoner tid opn))
           = map (\<lambda>j. Float_delay (Finite (default_base_delay * 2 ^ nat (j - 1)))) [1..k - 1]"
    by (simp add: loop_post_def)
  with k show ?thesis
    by (intro exI [of _ "k - 1"]) simp
qed

text \<open>
  \<open>run_test\<close> of test\_agent\_adk\_v2.py computes the delay itself, as
  \<open>backoff_seconds * attempt\<close>, and hands it to \<open>_tool_apply_backoff\<close>, which sleeps it as
  it is.
\<close>

lemma example_run_test_backoff:
  "run_test 10 example_playbook_v2 (Some always_503) retry_four_times example_spec 1 []
     = (Inr \<lparr>r2_test_id = ''t1'', r2_operation = ''getPetById'', r2_status_code = 503,
             r2_ok = False, r2_chaos_injected = True, r2_error = Some ''HTTP 503'',
             r2_attempts = 5,
             r2_decision =
               \<lparr>d2_action = ''fail'', d2_reason = Some (JStr ''give up''),
                d2_confidence = Some (JFloat (8/10)),
                d2_error_type = Some (JStr ''permanent''), d2_attempt = Some 5,
                d2_max_retries = Some 3, d2_llm_reasoning = Some answer_stop,
                d2_llm_called = Some True, d2_fallback = None\<rparr>,
             r2_playbook_used = True, r2_llm_used = True\<rparr>,
        [Invoked 1,
         Decided \<lparr>d2_action = ''retry'', d2_reason = Some (JStr ''transient''),
                  d2_confidence = Some (JFloat (9/10)),
                  d2_error_type = Some (JStr ''transient''), d2_attempt = Some 1,
                  d2_max_retries = Some 3, d2_llm_reasoning = Some answer_retry,
                  d2_llm_called = Some True, d2_fallback = None\<rparr>,
         Slept (Int_delay 1), Invoked 2,
         Decided \<lparr>d2_action = ''retry'', d2_reason = Some (JStr ''transient''),
                  d2_confidence = Some (JFloat (9/10)),
                  d2_error_type = Some (JStr ''transient''), d2_attempt = Some 2,
                  d2_max_retries = Some 3, d2_llm_reasoning = Some answer_retry,
                  d2_llm_called = Some True, d2_fallback = None\<rparr>,
         Slept (Int_delay 2), Invoked 3,
         Decided \<lparr>d2_action = ''retry'', d2_reason = Some (JStr ''transient''),
                  d2_confidence = Some (JFloat (9/10)),
                  d2_error_type = Some (JStr ''transient''), d2_attempt = Some 3,
                  d2_max_retries = Some 3, d2_llm_reasoning = Some answer_retry,
                  d2_llm_called = Some True, d2_fallback = None\<rparr>,
         Slept (Int_delay 3), Invoked 4,
         Decided \<lparr>d2_action = ''retry'', d2_reason = Some (JStr ''transient''),
                  d2_confidence = Some (JFloat (9/10)),
                  d2_error_type = Some (JStr ''transient''), d2_attempt = Some 4,
                  d2_max_retries = Some 3, d2_llm_reasoning = Some answer_retry,
                  d2_llm_called = Some True, d2_fallback = None\<rparr>,
         Slept (Int_delay 4), Invoked 5,
         Decided \<lparr>d2_action = ''fail'', d2_reason = Some (JStr ''give up''),
                  d2_confidence = Some (JFloat (8/10)),
                  d2_error_type = Some (JStr ''permanent''), d2_attempt = Some 5,
                  d2_max_retries = Some 3, d2_llm_reasoning = Some answer_stop,
                  d2_llm_called = Some True, d2_fallback = None\<rparr>])"
  by (simp add: numeral_eq_Suc example_playbook_v2_def always_503_def retry_four_times_def
        example_spec_def answer_retry_def answer_stop_def tool_call_operation_v2_def
        str_int_503 or_default_def tool_decide_retry_v2_def dict_get_def run_test_backoff_def
        Let_def)

text \<open>
  C6, evaluated. The playbook of test\_agent\_adk\_v2.py gives error \<open>503\<close> a
  \<open>backoff_seconds\<close> of \<open>1\<close>, the operation answers \<open>503\<close> at every attempt, and the
  reasoner answers "retry" four times and then "do not retry". \<open>run_test\<close> ends at the
  fifth attempt, and the delays it slept before the four retries are \<open>1, 2, 3, 4\<close>
  seconds: \<open>backoff_seconds * attempt\<close>, where \<open>min(base_delay * 2 ** (attempt - 1), cap)\<close>
  is \<open>1, 2, 4, 8\<close> below the cap. The third delay is \<open>3\<close> and not \<open>4\<close>, and no cap makes
  the four delays those of the formula. The tool that sleeps them is documented as
  "Apply exponential backoff before retry".
\<close>

theorem run_test_backoff_is_linear:
  "(\<exists>res. fst (run_test 10 example_playbook_v2 (Some always_503) retry_four_times
                  example_spec 1 []) = Inr res
          \<and> r2_attempts res = 5)
   \<and> sleeps (snd (run_test 10 example_playbook_v2 (Some always_503) retry_four_times
                    example_spec 1 []))
     = [Int_delay 1, Int_delay 2, Int_delay 3, Int_delay 4]
   \<and> run_test_backoff example_strategy_v2 3 = Inr (Int_delay 3)
   \<and> delay_seconds (Int_delay 3) = Some 3
   \<and> min ((1::real) * 2 ^ nat (3 - 1)) 10 = 4
   \<and> \<not> (\<exists>cap. map delay_seconds
                  (sleeps (snd (run_test 10 example_playbook_v2 (Some always_503)
                                  retry_four_times example_spec 1 [])))
                = map (\<lambda>attempt. Some (min (1 * 2 ^ nat (attempt - 1)) cap)) [1, 2, 3, 4])"
proof -
  have a: "run_test_backoff example_strategy_v2 3 = Inr (Int_delay 3)"
    by (simp add: run_test_backoff_def example_strategy_v2_def or_default_def)
  have b: "\<not> (\<exists>cap::real. 3 = min 4 cap \<and> 4 = min 8 cap)"
    by (auto simp: min_def split: if_splits)
  show ?thesis
    unfolding example_run_test_backoff using a b by simp
qed

section \<open>The playbook lookup\<close>

lemma check_procedures_no_match:
  "\<forall>p \<in> set ps. key \<notin> set (error_codes p) \<Longrightarrow>
     check_procedures ps code key
       = Inr \<lparr>s_error_code = code, s_action = Some ''fail'', s_max_retries = 0\<rparr>"
  by (induction ps) auto

lemma check_procedures_first_match:
  "i < length ps \<Longrightarrow> key \<in> set (error_codes (ps ! i)) \<Longrightarrow>
   \<forall>j < i. key \<notin> set (error_codes (ps ! j)) \<Longrightarrow>
     check_procedures ps code key
       = (case recovery_strategy (ps ! i) of
            None \<Rightarrow> Inl KeyError
          | Some action \<Rightarrow>
              Inr \<lparr>s_error_code = code, s_action = Some action, s_max_retries = 3\<rparr>)"
proof (induction ps arbitrary: i)
  case Nil
  then show ?case by simp
next
  case (Cons p ps)
  show ?case
  proof (cases i)
    case 0
    with Cons.prems show ?thesis by simp
  next
    case (Suc k)
    with Cons.prems have "key \<notin> set (error_codes p)"
      by auto
    moreover have "k < length ps" "key \<in> set (error_codes (ps ! k))"
      "\<forall>j < k. key \<notin> set (error_codes (ps ! j))"
      using Cons.prems Suc by auto
    ultimately show ?thesis
      using Cons.IH [of k] Suc by simp
  qed
qed

text \<open>
  C7. \<open>_tool_check_playbook\<close> (the same text in test\_agent\_adk\_v3.py and
  test\_agent\_adk\_v3\_v2.py) looks the error class up under the key \<open>str(error_code)\<close>.
  When the procedure at index \<open>i\<close> lists the key and no earlier procedure does, the
  lookup returns the \<open>recovery_strategy\<close> of that procedure as the action, with
  \<open>max_retries = 3\<close> (reading the strategy raises \<open>KeyError\<close> if that procedure has
  none); when no procedure lists the key it returns the default entry with action
  \<open>fail\<close> and \<open>max_retries = 0\<close>.
\<close>

theorem tool_check_playbook_first_match:
  "(\<forall>i < length playbook.
      str_int error_code \<in> set (error_codes (playbook ! i))
      \<longrightarrow> (\<forall>j < i. str_int error_code \<notin> set (error_codes (playbook ! j)))
      \<longrightarrow> tool_check_playbook playbook error_code
            = (case recovery_strategy (playbook ! i) of
                 None \<Rightarrow> Inl KeyError
               | Some action \<Rightarrow>
                   Inr \<lparr>s_error_code = error_code, s_action = Some action,
                        s_max_retries = 3\<rparr>))
   \<and> ((\<forall>p \<in> set playbook. str_int error_code \<notin> set (error_codes p))
      \<longrightarrow> tool_check_playbook playbook error_code
            = Inr \<lparr>s_error_code = error_code, s_action = Some ''fail'', s_max_retries = 0\<rparr>)"
  using check_procedures_first_match [of _ playbook "str_int error_code" error_code]
    check_procedures_no_match [of playbook "str_int error_code" error_code]
  by (simp add: tool_check_playbook_def)

lemma str_int_404: "str_int 404 = ''404''"
  by (simp add: str_int_def digit_char_def)

theorem tool_check_playbook_first_match_witness:
  "tool_check_playbook
     [\<lparr>error_codes = [''500'', ''502''], recovery_strategy = Some ''escalate''\<rparr>,
      \<lparr>error_codes = [''503'', ''504''], recovery_strategy = Some ''retry''\<rparr>,
      \<lparr>error_codes = [''503''], recovery_strategy = Some ''fail''\<rparr>] 503
     = Inr \<lparr>s_error_code = 503, s_action = Some ''retry'', s_max_retries = 3\<rparr>
   \<and> tool_check_playbook
     [\<lparr>error_codes = [''500'', ''502''], recovery_strategy = Some ''escalate''\<rparr>,
      \<lparr>error_codes = [''503'', ''504''], recovery_strategy = Some ''retry''\<rparr>,
      \<lparr>error_codes = [''503''], recovery_strategy = Some ''fail''\<rparr>] 404
     = Inr \<lparr>s_error_code = 404, s_action = Some ''fail'', s_max_retries = 0\<rparr>"
proof -
  let ?pb = "[\<lparr>error_codes = [''500'', ''502''], recovery_strategy = Some ''escalate''\<rparr>,
      \<lparr>error_codes = [''503'', ''504''], recovery_strategy = Some ''retry''\<rparr>,
      \<lparr>error_codes = [''503''], recovery_strategy = Some ''fail''\<rparr>]"
  have i: "(1::nat) < length ?pb" by simp
  have hit: "str_int 503 \<in> set (error_codes (?pb ! 1))"
    by (simp add: str_int_503)
  have before: "\<forall>j < (1::nat). str_int 503 \<notin> set (error_codes (?pb ! j))"
    by (simp add: str_int_503)
  have none: "\<forall>p \<in> set ?pb. str_int 404 \<notin> set (error_codes p)"
    by (simp add: str_int_404)
  from tool_check_playbook_first_match [of ?pb 503] i hit before
  have "tool_check_playbook ?pb 503
          = (case recovery_strategy (?pb ! 1) of
               None \<Rightarrow> Inl KeyError
             | Some action \<Rightarrow>
                 Inr \<lparr>s_error_code = 503, s_action = Some action, s_max_retries = 3\<rparr>)"
    by blast
  moreover from tool_check_playbook_first_match [of ?pb 404] none
  have "tool_check_playbook ?pb 404
          = Inr \<lparr>s_error_code = 404, s_action = Some ''fail'', s_max_retries = 0\<rparr>"
    by blast
  ultimately show ?thesis
    by simp
qed

section \<open>The heuristic decision\<close>

text \<open>
  The heuristic of test\_agent\_adk\_v3.py does not read the strategy. With attempts left,
  it retries a \<open>503\<close> that the playbook wants failed, and fails a \<open>400\<close> that the playbook
  wants retried.
\<close>

theorem fallback_heuristic_ignores_strategy:
  "(1::int) < 3
   \<and> d_action (decide_retry_tool (Call_raises ''unavailable'') 503 1 3 ''fail'') = ''retry''
   \<and> d_action (decide_retry_tool (Call_raises ''unavailable'') 400 1 3 ''retry'') = ''fail''"
  by (simp add: decide_retry_tool_def fallback_heuristic_def)

text \<open>
  C8, as the code has it. \<open>_fallback_decide_retry\<close> of test\_agent\_adk\_v2.py returns
  \<open>fail\<close> when \<open>attempt >= max_retries\<close>, and otherwise, for a strategy that has an action,
  \<open>retry\<close> exactly when that action is \<open>retry\<close>; it returns a decision and does not raise.
  The heuristic in the \<open>except\<close> branch of \<open>decide_retry_tool\<close> of test\_agent\_adk\_v3.py
  returns \<open>fail\<close> when \<open>attempt >= max_retries\<close>, and otherwise \<open>retry\<close> exactly when the
  error code is neither \<open>400\<close> nor \<open>422\<close>, whatever the strategy says; it is total.
\<close>

theorem heuristic_decisions:
  "(attempt \<ge> max_retries \<longrightarrow>
      (\<exists>d. fallback_decide_retry error_code attempt max_retries strategy = Inr d
           \<and> d2_action d = ''fail''))
   \<and> (attempt < max_retries \<longrightarrow> s2_action strategy = Some action \<longrightarrow>
      (\<exists>d. fallback_decide_retry error_code attempt max_retries strategy = Inr d
           \<and> d2_action d = (if action = ''retry'' then ''retry'' else ''fail'')))
   \<and> decide_retry_tool (Call_raises e) error_code attempt max_retries strategy_action
       = fallback_heuristic ''Fallback heuristic'' error_code attempt max_retries
   \<and> d_action (fallback_heuristic ''Fallback heuristic'' error_code attempt max_retries)
       = (if attempt \<ge> max_retries then ''fail''
          else if error_code \<noteq> 400 \<and> error_code \<noteq> 422 then ''retry'' else ''fail'')"
  by (simp add: fallback_decide_retry_def decide_retry_tool_def fallback_heuristic_def Let_def)

theorem heuristic_decisions_witness:
  "(\<exists>d. fallback_decide_retry 503 3 3 example_strategy_v2 = Inr d \<and> d2_action d = ''fail'')
   \<and> (\<exists>d. fallback_decide_retry 503 1 3 example_strategy_v2 = Inr d \<and> d2_action d = ''retry'')
   \<and> (\<exists>d. fallback_decide_retry 503 1 3 (example_strategy_v2\<lparr>s2_action := Some ''fail''\<rparr>)
             = Inr d \<and> d2_action d = ''fail'')
   \<and> d_action (fallback_heuristic ''Fallback heuristic'' 422 1 3) = ''fail''"
proof -
  have a: "s2_action example_strategy_v2 = Some ''retry''"
    and b: "s2_action (example_strategy_v2\<lparr>s2_action := Some ''fail''\<rparr>) = Some ''fail''"
    by (simp_all add: example_strategy_v2_def)
  from heuristic_decisions
         [where attempt = 3 and max_retries = 3 and error_code = 503
            and strategy = example_strategy_v2 and action = "''retry''"]
       heuristic_decisions
         [where attempt = 1 and max_retries = 3 and error_code = 503
            and strategy = example_strategy_v2 and action = "''retry''"]
       heuristic_decisions
         [where attempt = 1 and max_retries = 3 and error_code = 503
            and strategy = "example_strategy_v2\<lparr>s2_action := Some ''fail''\<rparr>"
            and action = "''fail''"]
       heuristic_decisions
         [where attempt = 1 and max_retries = 3 and error_code = 422
            and strategy = example_strategy_v2 and action = "''retry''"]
       a b
  show ?thesis
    by simp
qed

section \<open>Falling back when the reasoner fails\<close>

text \<open>
  In \<open>decide_retry_tool\<close> of test\_agent\_adk\_v3.py a response that lacks every required
  field is not a failure: the empty object yields a decision built from the defaults,
  marked \<open>llm_called = True\<close>, that differs from the one the heuristic gives.
\<close>

theorem decide_retry_tool_missing_fields:
  "d_llm_called (decide_retry_tool (Parsed (JObj [])) 503 1 3 ''retry'') = True
   \<and> d_action (decide_retry_tool (Parsed (JObj [])) 503 1 3 ''retry'') = ''fail''
   \<and> d_action (fallback_heuristic ''Fallback heuristic'' 503 1 3) = ''retry''
   \<and> decide_retry_tool (Parsed (JObj [])) 503 1 3 ''retry''
       \<noteq> fallback_heuristic ''Fallback heuristic'' 503 1 3"
  by (simp add: decide_retry_tool_def fallback_heuristic_def dict_get_def)

text \<open>
  In test\_agent\_adk\_v2.py the strategy returned for an error code that no procedure
  matches has no \<open>backoff_seconds\<close>, and the prompt reads that key before the \<open>try\<close>:
  for such a code \<open>_tool_decide_retry\<close> raises \<open>KeyError\<close> whatever the reasoner does.
\<close>

lemma tool_check_playbook_v2_unmatched:
  "\<forall>p \<in> set playbook. p2_error_code p \<noteq> str_int error_code \<Longrightarrow>
     s2_backoff_seconds (tool_check_playbook_v2 playbook error_code) = None"
  by (induction playbook) auto

lemma tool_decide_retry_v2_unmatched:
  "\<forall>p \<in> set playbook. p2_error_code p \<noteq> str_int error_code \<Longrightarrow>
     tool_decide_retry_v2 outcome error_code attempt max_retries
       (tool_check_playbook_v2 playbook error_code) = Inl KeyError"
  by (simp add: tool_decide_retry_v2_def tool_check_playbook_v2_unmatched)

text \<open>
  In test\_agent\_adk\_v2.py the handler for \<open>json.JSONDecodeError\<close> reads \<open>response.text\<close>
  before it falls back. When the model call itself raises that error, \<open>response\<close> was
  never bound and \<open>_tool_decide_retry\<close> raises \<open>UnboundLocalError\<close>; when reading the text
  raises it, the handler raises it again. Neither call returns a decision, even for the
  strategy of the example, which has every key the prompt reads.
\<close>

lemma tool_decide_retry_v2_decode_error:
  "tool_decide_retry_v2 (Decode_error_from_call e) 503 1 3 example_strategy_v2
     = Inl UnboundLocalError
   \<and> tool_decide_retry_v2 (Decode_error_from_text e) 503 1 3 example_strategy_v2
     = Inl (Raised e)"
  by (simp add: tool_decide_retry_v2_def example_strategy_v2_def)

text \<open>
  C2, as the code has it. \<open>decide_retry_tool\<close> of test\_agent\_adk\_v3.py never propagates
  an exception of the reasoner: when the model call or reading its response raises
  (whatever the exception), the response is not JSON, or it is JSON but not an object,
  the result is the heuristic decision marked \<open>llm_called = False\<close>; an object with
  missing fields is answered from the defaults (\<open>should_retry\<close> absent means \<open>fail\<close>) and
  marked \<open>llm_called = True\<close>. In \<open>_tool_decide_retry\<close> of test\_agent\_adk\_v2.py, for a
  strategy that has the \<open>action\<close>, \<open>reason\<close> and \<open>backoff_seconds\<close> the prompt reads, when
  the model call or reading its response raises an exception other than
  \<open>json.JSONDecodeError\<close>, the response is not JSON, is not an object, or lacks
  \<open>should_retry\<close>, \<open>reasoning\<close> or \<open>confidence\<close>, the result is the decision of
  \<open>_fallback_decide_retry\<close>, marked \<open>llm_called = False\<close> and \<open>fallback = True\<close>.
\<close>

theorem reasoner_failure_falls_back:
  "decide_retry_tool (Call_raises e) error_code attempt max_retries strategy_action
     = fallback_heuristic ''Fallback heuristic'' error_code attempt max_retries
   \<and> decide_retry_tool (Decode_error_from_call e) error_code attempt max_retries
       strategy_action
     = fallback_heuristic ''Fallback heuristic'' error_code attempt max_retries
   \<and> decide_retry_tool (Decode_error_from_text e) error_code attempt max_retries
       strategy_action
     = fallback_heuristic ''Fallback heuristic'' error_code attempt max_retries
   \<and> decide_retry_tool (Malformed_json e) error_code attempt max_retries strategy_action
     = fallback_heuristic ''Fallback heuristic'' error_code attempt max_retries
   \<and> ((\<forall>obj. v \<noteq> JObj obj) \<longrightarrow>
        decide_retry_tool (Parsed v) error_code attempt max_retries strategy_action
          = fallback_heuristic ''Fallback heuristic'' error_code attempt max_retries)
   \<and> d_llm_called (fallback_heuristic ''Fallback heuristic'' error_code attempt max_retries)
     = False
   \<and> d_llm_called (decide_retry_tool (Parsed (JObj obj')) error_code attempt max_retries
                     strategy_action) = True
   \<and> d_action (decide_retry_tool (Parsed (JObj obj')) error_code attempt max_retries
                 strategy_action)
     = (if truthy (dict_get obj' ''should_retry'' (JBool False)) then ''retry'' else ''fail'')
   \<and> (s2_action strategy \<noteq> None \<and> s2_reason strategy \<noteq> None
        \<and> s2_backoff_seconds strategy \<noteq> None \<longrightarrow>
        outcome = Call_raises e \<or> outcome = Malformed_json e
        \<or> (outcome = Parsed v \<and> (\<forall>obj. v \<noteq> JObj obj))
        \<or> (outcome = Parsed (JObj obj')
            \<and> (map_of obj' ''should_retry'' = None \<or> map_of obj' ''reasoning'' = None
                \<or> map_of obj' ''confidence'' = None)) \<longrightarrow>
        (\<exists>d. tool_decide_retry_v2 outcome error_code attempt max_retries strategy = Inr d
             \<and> fallback_decide_retry error_code attempt max_retries strategy = Inr d
             \<and> d2_llm_called d = Some False \<and> d2_fallback d = Some True))"
proof -
  have non_obj: "llm_decision (Parsed v) = None" if "\<forall>obj. v \<noteq> JObj obj"
    using that by (cases v) simp_all
  have non_obj2: "llm_decision_v2 (Parsed v) attempt max_retries = None"
    if "\<forall>obj. v \<noteq> JObj obj"
    using that by (cases v) simp_all
  have v3: "decide_retry_tool (Call_raises e) error_code attempt max_retries strategy_action
     = fallback_heuristic ''Fallback heuristic'' error_code attempt max_retries"
    "decide_retry_tool (Decode_error_from_call e) error_code attempt max_retries
       strategy_action
     = fallback_heuristic ''Fallback heuristic'' error_code attempt max_retries"
    "decide_retry_tool (Decode_error_from_text e) error_code attempt max_retries
       strategy_action
     = fallback_heuristic ''Fallback heuristic'' error_code attempt max_retries"
    "decide_retry_tool (Malformed_json e) error_code attempt max_retries strategy_action
     = fallback_heuristic ''Fallback heuristic'' error_code attempt max_retries"
    "(\<forall>obj. v \<noteq> JObj obj) \<longrightarrow>
        decide_retry_tool (Parsed v) error_code attempt max_retries strategy_action
          = fallback_heuristic ''Fallback heuristic'' error_code attempt max_retries"
    "d_llm_called (fallback_heuristic ''Fallback heuristic'' error_code attempt max_retries)
     = False"
    "d_llm_called (decide_retry_tool (Parsed (JObj obj')) error_code attempt max_retries
                     strategy_action) = True"
    "d_action (decide_retry_tool (Parsed (JObj obj')) error_code attempt max_retries
                 strategy_action)
     = (if truthy (dict_get obj' ''should_retry'' (JBool False)) then ''retry'' else ''fail'')"
    using non_obj by (simp_all add: decide_retry_tool_def fallback_heuristic_def)
  have v2: "\<exists>d. tool_decide_retry_v2 outcome error_code attempt max_retries strategy = Inr d
             \<and> fallback_decide_retry error_code attempt max_retries strategy = Inr d
             \<and> d2_llm_called d = Some False \<and> d2_fallback d = Some True"
    if keys: "s2_action strategy \<noteq> None \<and> s2_reason strategy \<noteq> None
        \<and> s2_backoff_seconds strategy \<noteq> None"
      and fails: "outcome = Call_raises e \<or> outcome = Malformed_json e
        \<or> (outcome = Parsed v \<and> (\<forall>obj. v \<noteq> JObj obj))
        \<or> (outcome = Parsed (JObj obj')
            \<and> (map_of obj' ''should_retry'' = None \<or> map_of obj' ''reasoning'' = None
                \<or> map_of obj' ''confidence'' = None))"
  proof -
    from fails non_obj2 have none: "llm_decision_v2 outcome attempt max_retries = None"
      by (auto split: option.splits)
    from fails have falls: "handler_raises_v2 outcome = None"
      by auto
    from keys obtain a where a: "s2_action strategy = Some a"
      by auto
    have "\<exists>d. fallback_decide_retry error_code attempt max_retries strategy = Inr d
             \<and> d2_llm_called d = Some False \<and> d2_fallback d = Some True"
      by (simp add: fallback_decide_retry_def a Let_def)
    with keys none falls show ?thesis
      by (simp add: tool_decide_retry_v2_def)
  qed
  from v3 v2 show ?thesis
    by blast
qed

theorem reasoner_failure_falls_back_witness:
  "d_llm_called (decide_retry_tool (Parsed (JArr [])) 503 1 3 ''retry'') = False
   \<and> d_action (decide_retry_tool (Parsed (JArr [])) 503 1 3 ''retry'') = ''retry''
   \<and> (\<exists>d. tool_decide_retry_v2 (Parsed (JObj [(''should_retry'', JBool True)])) 503 1 3
             example_strategy_v2 = Inr d
          \<and> d2_action d = ''retry'' \<and> d2_llm_called d = Some False
          \<and> d2_fallback d = Some True)"
proof -
  have keys: "s2_action example_strategy_v2 \<noteq> None \<and> s2_reason example_strategy_v2 \<noteq> None
        \<and> s2_backoff_seconds example_strategy_v2 \<noteq> None"
    by (simp add: example_strategy_v2_def)
  have arr: "\<forall>obj. JArr [] \<noteq> JObj obj"
    by simp
  have missing: "map_of [(''should_retry'', JBool True)] ''reasoning'' = None"
    by simp
  have fb: "d_action (fallback_heuristic ''Fallback heuristic'' 503 1 3) = ''retry''"
    by (simp add: fallback_heuristic_def)
  have fb2: "\<And>d. fallback_decide_retry 503 1 3 example_strategy_v2 = Inr d
               \<Longrightarrow> d2_action d = ''retry''"
    by (auto simp: fallback_decide_retry_def example_strategy_v2_def Let_def)
  from reasoner_failure_falls_back
         [where e = "''x''" and error_code = 503 and attempt = 1 and max_retries = 3
            and strategy_action = "''retry''" and v = "JArr []"
            and obj' = "[(''should_retry'', JBool True)]" and strategy = example_strategy_v2
            and outcome = "Parsed (JObj [(''should_retry'', JBool True)])"]
    keys arr missing fb fb2
  show ?thesis
    by auto
qed

end
